theory Spec2Isabelle
  imports Complex_Main
begin

section \<open>Values of the scripting language\<close>

text \<open>
  The script is JavaScript run by the spreadsheet host.  A number is an IEEE double:
  the three special values are kept apart, and a finite double is given by its value, a
  rational.  Arithmetic and the reading of decimal text round to the nearest double,
  ties to the even mantissa, and overflow to infinity.  Negative zero is identified
  with zero, which no operation of the script tells apart.
\<close>

datatype jsnum = NaN | PosInf | NegInf | Fin rat

text \<open>
  Values: the primitives, a \<open>Date\<close> object (its time value in milliseconds since the
  epoch, \<open>None\<close> for an invalid date), a built-in member of \<open>Object.prototype\<close>
  (named by the property it is found under), arrays and plain objects (own properties
  as an association list; a plain object inherits from \<open>Object.prototype\<close>).
\<close>

datatype jsval =
    Undefined
  | Null
  | Bool bool
  | Num jsnum
  | Str string
  | DateObj "int option"
  | Builtin string
  | Arr "jsval list"
  | Obj "(string \<times> jsval) list"

text \<open>A thrown \<open>Error\<close> object, by its \<open>message\<close>.\<close>

datatype exn = Exn string

fun message :: "exn \<Rightarrow> string" where
  "message (Exn m) = m"

definition bindE :: "exn + 'a \<Rightarrow> ('a \<Rightarrow> exn + 'b) \<Rightarrow> exn + 'b" where
  "bindE m f = (case m of Inl e \<Rightarrow> Inl e | Inr x \<Rightarrow> f x)"

subsection \<open>Truthiness, \<open>||\<close>, strict equality\<close>

fun truthy :: "jsval \<Rightarrow> bool" where
  "truthy Undefined = False"
| "truthy Null = False"
| "truthy (Bool b) = b"
| "truthy (Num x) = (x \<noteq> NaN \<and> x \<noteq> Fin 0)"
| "truthy (Str s) = (s \<noteq> [])"
| "truthy (DateObj t) = True"
| "truthy (Builtin n) = True"
| "truthy (Arr xs) = True"
| "truthy (Obj fs) = True"

text \<open>\<open>a || b\<close>\<close>

definition orElse :: "jsval \<Rightarrow> jsval \<Rightarrow> jsval" where
  "orElse a b = (if truthy a then a else b)"

text \<open>
  \<open>a === b\<close> for two values that come from different places (a cell of the sheet and
  a field of the criteria): two objects are then never the same object.
\<close>

fun strictEq :: "jsval \<Rightarrow> jsval \<Rightarrow> bool" where
  "strictEq Undefined Undefined = True"
| "strictEq Null Null = True"
| "strictEq (Bool a) (Bool b) = (a = b)"
| "strictEq (Num a) (Num b) = (a = b \<and> a \<noteq> NaN)"
| "strictEq (Str a) (Str b) = (a = b)"
| "strictEq _ _ = False"

text \<open>\<open>row[i]\<close>: reading past the end of an array gives \<open>undefined\<close>.\<close>

definition cellAt :: "jsval list \<Rightarrow> nat \<Rightarrow> jsval" where
  "cellAt row i = (if i < length row then row ! i else Undefined)"

subsection \<open>Numbers\<close>

text \<open>\<open>m * 2^e\<close> for an integer \<open>e\<close> of either sign.\<close>

definition scale2 :: "rat \<Rightarrow> int \<Rightarrow> rat" where
  "scale2 m e = (if 0 \<le> e then m * 2 ^ nat e else m / 2 ^ nat (- e))"

text \<open>The number of binary digits of a positive integer.\<close>

function bitLength :: "int \<Rightarrow> int" where
  "bitLength n = (if n \<le> 0 then 0 else 1 + bitLength (n div 2))"
  by auto
termination
  by (relation "measure nat") auto

declare bitLength.simps [simp del]

text \<open>The binary exponent of a positive rational \<open>a\<close>: the \<open>k\<close> with
  \<open>2^k \<le> a < 2^(k+1)\<close>.  The difference of the bit lengths of numerator and
  denominator is that \<open>k\<close> or one more.\<close>

definition floorLog2 :: "rat \<Rightarrow> int" where
  "floorLog2 a =
     (case quotient_of a of
        (n, d) \<Rightarrow>
          let k = bitLength n - bitLength d
          in if scale2 1 k \<le> a then k else k - 1)"

text \<open>To the nearest integer, a tie to the even one.\<close>

definition roundHalfEven :: "rat \<Rightarrow> int" where
  "roundHalfEven q =
     (let f = \<lfloor>q\<rfloor>; d = q - of_int f
      in if d < 1 / 2 then f else if 1 / 2 < d then f + 1 else if even f then f else f + 1)"

text \<open>
  The double nearest to a rational: a mantissa \<open>m\<close> of 53 bits at the exponent \<open>e\<close> of
  its last bit, which is not below -1074 (below that the doubles are subnormal and
  equally spaced), and infinity when the rounded value \<open>m * 2^e\<close> reaches \<open>2^1024\<close>,
  that is when \<open>e\<close> exceeds 971 or the mantissa at 971 rounds up to \<open>2^53\<close>.
\<close>

definition roundDouble :: "rat \<Rightarrow> jsnum" where
  "roundDouble r =
     (if r = 0 then Fin 0
      else
        let a = \<bar>r\<bar>;
            e = max (floorLog2 a - 52) (- 1074);
            m = roundHalfEven (scale2 a (- e))
        in if 971 < e \<or> (e = 971 \<and> m = 2 ^ 53)
           then (if r < 0 then NegInf else PosInf)
           else Fin (if r < 0 then - scale2 (of_int m) e else scale2 (of_int m) e))"

text \<open>A finite value that is written as a rational which is not a double (0.1, say)
  stands for the nearest double.\<close>

definition asDouble :: "jsnum \<Rightarrow> jsnum" where
  "asDouble x = (case x of Fin r \<Rightarrow> roundDouble r | _ \<Rightarrow> x)"

text \<open>\<open>x + y\<close> on numbers.\<close>

fun addDoubles :: "jsnum \<Rightarrow> jsnum \<Rightarrow> jsnum" where
  "addDoubles (Fin a) (Fin b) = roundDouble (a + b)"
| "addDoubles NaN _ = NaN"
| "addDoubles _ NaN = NaN"
| "addDoubles PosInf NegInf = NaN"
| "addDoubles NegInf PosInf = NaN"
| "addDoubles PosInf _ = PosInf"
| "addDoubles _ PosInf = PosInf"
| "addDoubles NegInf _ = NegInf"
| "addDoubles _ NegInf = NegInf"

definition jsAdd :: "jsnum \<Rightarrow> jsnum \<Rightarrow> jsnum" where
  "jsAdd x y = addDoubles (asDouble x) (asDouble y)"

text \<open>\<open>x / n\<close> for a count \<open>n\<close>, with the IEEE results of a division by zero.\<close>

definition jsDivNat :: "jsnum \<Rightarrow> nat \<Rightarrow> jsnum" where
  "jsDivNat x n =
     (case asDouble x of
        NaN \<Rightarrow> NaN
      | PosInf \<Rightarrow> PosInf
      | NegInf \<Rightarrow> NegInf
      | Fin a \<Rightarrow>
          if n = 0 then (if a = 0 then NaN else if 0 < a then PosInf else NegInf)
          else roundDouble (a / of_nat n))"

text \<open>\<open>String(n)\<close> for a row number, and \<open>s.padStart(w, c)\<close> for a one-character filler.\<close>

definition digitChar :: "nat \<Rightarrow> char" where
  "digitChar d = ''0123456789'' ! d"

fun natToString :: "nat \<Rightarrow> string" where
  "natToString n =
     (if n < 10 then [digitChar n] else natToString (n div 10) @ [digitChar (n mod 10)])"

declare natToString.simps [simp del]

definition padStart :: "nat \<Rightarrow> char \<Rightarrow> string \<Rightarrow> string" where
  "padStart w c s = replicate (w - length s) c @ s"

subsection \<open>\<open>parseFloat\<close>\<close>

definition isDigit :: "char \<Rightarrow> bool" where
  "isDigit c = (c \<in> set ''0123456789'')"

definition digitVal :: "char \<Rightarrow> nat" where
  "digitVal c = of_char c - 48"

text \<open>White space of the ASCII range (tab, line feed, vertical tab, form feed, carriage
  return, space); strings are byte strings here.\<close>

definition isSpace :: "char \<Rightarrow> bool" where
  "isSpace c = (c \<in> set [CHR 0x09, CHR 0x0A, CHR 0x0B, CHR 0x0C, CHR 0x0D, CHR 0x20])"

definition digitsVal :: "string \<Rightarrow> int" where
  "digitsVal ds = foldl (\<lambda>acc c. 10 * acc + int (digitVal c)) 0 ds"

text \<open>The exponent part \<open>e\<close>, \<open>e+\<close>, \<open>e-\<close> followed by at least one digit; anything else
  is not part of the number and counts as exponent 0.\<close>

definition exponentPart :: "string \<Rightarrow> int" where
  "exponentPart s =
     (case s of
        [] \<Rightarrow> 0
      | c # r \<Rightarrow>
          if c = CHR ''e'' \<or> c = CHR ''E'' then
            (case r of
               [] \<Rightarrow> 0
             | d # r' \<Rightarrow>
                 if d = CHR ''-'' then - digitsVal (takeWhile isDigit r')
                 else if d = CHR ''+'' then digitsVal (takeWhile isDigit r')
                 else digitsVal (takeWhile isDigit r))
          else 0)"

definition scale10 :: "rat \<Rightarrow> int \<Rightarrow> rat" where
  "scale10 m e = (if 0 \<le> e then m * 10 ^ nat e else m / 10 ^ nat (- e))"

text \<open>
  \<open>parseFloat\<close> on a string: leading white space is skipped, then the longest prefix that
  is a decimal literal (an optional sign, then \<open>Infinity\<close> or digits with an optional
  fraction and exponent) gives the value, rounded to a double; when there is no such
  prefix the result is \<open>NaN\<close>.
\<close>

definition parseFloatStr :: "string \<Rightarrow> jsnum" where
  "parseFloatStr s =
     (let t = dropWhile isSpace s;
          neg = (take 1 t = ''-'');
          u = (if take 1 t = ''-'' \<or> take 1 t = ''+'' then drop 1 t else t)
      in if take 8 u = ''Infinity'' then (if neg then NegInf else PosInf)
         else
           let ip = takeWhile isDigit u;
               r1 = dropWhile isDigit u;
               fp = (if take 1 r1 = ''.'' then takeWhile isDigit (drop 1 r1) else []);
               r2 = (if take 1 r1 = ''.'' then dropWhile isDigit (drop 1 r1) else r1)
           in if ip = [] \<and> fp = [] then NaN
              else
                let m = scale10 (of_int (digitsVal (ip @ fp))) (exponentPart r2 - int (length fp))
                in roundDouble (if neg then - m else m))"

text \<open>
  \<open>parseFloat\<close> on any value converts it to a string first.  A number prints to a
  literal that reads back as the same number; \<open>undefined\<close>, \<open>null\<close>, booleans, dates,
  built-ins and plain objects print to text that starts with a letter or a bracket; an
  array prints its elements separated by commas (nothing for \<open>null\<close> and \<open>undefined\<close>),
  so only its first element can contribute a number.
\<close>

fun parseFloat :: "jsval \<Rightarrow> jsnum" where
  "parseFloat (Num x) = x"
| "parseFloat (Str s) = parseFloatStr s"
| "parseFloat (Arr (v # vs)) = parseFloat v"
| "parseFloat _ = NaN"

subsection \<open>The host\<close>

text \<open>
  What the script takes from its runtime and cannot see into.  Every call into the
  spreadsheet service may throw (\<open>faults\<close> says which calls do, with what error);
  \<open>JSON.parse\<close>, \<open>Date.parse\<close> (\<open>None\<close> for a string it does not recognise), the clock,
  and the texts the runtime prints for a number, a date and a built-in are parameters.
\<close>

datatype hostcall =
    GetActiveSpreadsheet
  | GetSheetByName
  | GetDataRange
  | GetValues
  | GetLastRow
  | AppendRow
  | InsertSheet
  | GetRange nat
  | SetValues nat

record host =
  faults :: "hostcall \<Rightarrow> exn option"
  jsonParse :: "string \<Rightarrow> exn + jsval"
  dateParse :: "string \<Rightarrow> int option"
  now :: int
  numberToString :: "jsnum \<Rightarrow> string"
  dateToString :: "int option \<Rightarrow> string"
  builtinToString :: "string \<Rightarrow> string"

definition hostCall :: "host \<Rightarrow> hostcall \<Rightarrow> 'a \<Rightarrow> exn + 'a" where
  "hostCall h c r = (case faults h c of Some e \<Rightarrow> Inl e | None \<Rightarrow> Inr r)"

subsection \<open>Conversion to string, \<open>+\<close>\<close>

fun joinComma :: "string list \<Rightarrow> string" where
  "joinComma [] = []"
| "joinComma [s] = s"
| "joinComma (s # t # ss) = s @ '','' @ joinComma (t # ss)"

fun toStr :: "host \<Rightarrow> jsval \<Rightarrow> string" where
  "toStr h Undefined = ''undefined''"
| "toStr h Null = ''null''"
| "toStr h (Bool b) = (if b then ''true'' else ''false'')"
| "toStr h (Num x) = numberToString h x"
| "toStr h (Str s) = s"
| "toStr h (DateObj t) = dateToString h t"
| "toStr h (Builtin n) = builtinToString h n"
| "toStr h (Arr xs) =
     joinComma (map (\<lambda>v. if v = Null \<or> v = Undefined then [] else toStr h v) xs)"
| "toStr h (Obj fs) = ''[object Object]''"

text \<open>The number \<open>+\<close> takes a primitive for that is not a string (it is not applied to
  a string or an object).\<close>

fun toNumber :: "jsval \<Rightarrow> jsnum" where
  "toNumber (Num x) = x"
| "toNumber Null = Fin 0"
| "toNumber (Bool b) = (if b then Fin 1 else Fin 0)"
| "toNumber _ = NaN"

text \<open>Values that \<open>+\<close> treats as text: strings, and objects, which it converts to
  their string form first.\<close>

fun textual :: "jsval \<Rightarrow> bool" where
  "textual Undefined = False"
| "textual Null = False"
| "textual (Bool b) = False"
| "textual (Num x) = False"
| "textual _ = True"

text \<open>\<open>a + b\<close>\<close>

definition jsPlus :: "host \<Rightarrow> jsval \<Rightarrow> jsval \<Rightarrow> jsval" where
  "jsPlus h a b =
     (if textual a \<or> textual b then Str (toStr h a @ toStr h b)
      else Num (jsAdd (toNumber a) (toNumber b)))"

subsection \<open>Property access\<close>

text \<open>The properties every plain object inherits from \<open>Object.prototype\<close>.\<close>

definition prototypeNames :: "string list" where
  "prototypeNames =
     [''constructor'', ''__defineGetter__'', ''__defineSetter__'', ''hasOwnProperty'',
      ''__lookupGetter__'', ''__lookupSetter__'', ''isPrototypeOf'',
      ''propertyIsEnumerable'', ''toString'', ''valueOf'', ''__proto__'',
      ''toLocaleString'']"

definition objectPrototype :: "string \<Rightarrow> jsval" where
  "objectPrototype k = (if k \<in> set prototypeNames then Builtin k else Undefined)"

text \<open>
  \<open>v.k\<close> and \<open>v[k]\<close>: reading a property of \<open>undefined\<close> or \<open>null\<close> throws a
  \<open>TypeError\<close>; an own property wins over an inherited one.  The members that
  strings, numbers, arrays, dates and functions have of their own are not modelled:
  the script reads none of them.
\<close>

definition getProperty :: "(string \<times> jsval) list \<Rightarrow> string \<Rightarrow> jsval" where
  "getProperty fs k = (case map_of fs k of Some v \<Rightarrow> v | None \<Rightarrow> objectPrototype k)"

fun getMember :: "jsval \<Rightarrow> string \<Rightarrow> exn + jsval" where
  "getMember Undefined k =
     Inl (Exn (''Cannot read properties of undefined (reading '' @ k @ '')''))"
| "getMember Null k = Inl (Exn (''Cannot read properties of null (reading '' @ k @ '')''))"
| "getMember (Obj fs) k = Inr (getProperty fs k)"
| "getMember _ k = Inr (objectPrototype k)"

text \<open>
  \<open>o[k] = v\<close> on a plain object, for a primitive \<open>v\<close>: an existing own property is
  overwritten in place, a new one is added at the end; \<open>__proto__\<close> is an accessor
  whose setter ignores a primitive.
\<close>

fun putOwn :: "(string \<times> jsval) list \<Rightarrow> string \<Rightarrow> jsval \<Rightarrow> (string \<times> jsval) list" where
  "putOwn [] k v = [(k, v)]"
| "putOwn ((k', v') # fs) k v = (if k' = k then (k, v) # fs else (k', v') # putOwn fs k v)"

definition setMember :: "(string \<times> jsval) list \<Rightarrow> string \<Rightarrow> jsval \<Rightarrow> (string \<times> jsval) list" where
  "setMember fs k v = (if k = ''__proto__'' then fs else putOwn fs k v)"

subsection \<open>Dates\<close>

text \<open>The calendar date of a day number (days since 1970-01-01), as year, month, day.\<close>

definition civilFromDays :: "int \<Rightarrow> int \<times> int \<times> int" where
  "civilFromDays z0 =
     (let z = z0 + 719468;
          era = z div 146097;
          doe = z - era * 146097;
          yoe = (doe - doe div 1460 + doe div 36524 - doe div 146096) div 365;
          doy = doe - (365 * yoe + yoe div 4 - yoe div 100);
          mp = (5 * doy + 2) div 153;
          d = doy - (153 * mp + 2) div 5 + 1;
          m = (if mp < 10 then mp + 3 else mp - 9);
          y = yoe + era * 400 + (if m \<le> 2 then 1 else 0)
      in (y, m, d))"

definition pad :: "nat \<Rightarrow> int \<Rightarrow> string" where
  "pad w n = padStart w CHR ''0'' (natToString (nat n))"

definition isoYear :: "int \<Rightarrow> string" where
  "isoYear y =
     (if 0 \<le> y \<and> y \<le> 9999 then pad 4 y
      else if y < 0 then ''-'' @ pad 6 (- y) else ''+'' @ pad 6 y)"

text \<open>\<open>d.toISOString()\<close>: throws a \<open>RangeError\<close> on an invalid date.\<close>

definition toISOString :: "int option \<Rightarrow> exn + string" where
  "toISOString t =
     (case t of
        None \<Rightarrow> Inl (Exn ''Invalid time value'')
      | Some ms \<Rightarrow>
          (case civilFromDays (ms div 86400000) of
             (y, m, d) \<Rightarrow>
               let r = ms mod 86400000 in
               Inr (isoYear y @ ''-'' @ pad 2 m @ ''-'' @ pad 2 d @ ''T''
                    @ pad 2 (r div 3600000) @ '':'' @ pad 2 (r div 60000 mod 60) @ '':''
                    @ pad 2 (r div 1000 mod 60) @ ''.'' @ pad 3 (r mod 1000) @ ''Z'')))"

text \<open>\<open>s.split('T')[0]\<close>\<close>

definition splitT0 :: "string \<Rightarrow> string" where
  "splitT0 s = takeWhile (\<lambda>c. c \<noteq> CHR ''T'') s"

text \<open>A number as a time value: finite, within 8.64e15 ms of the epoch, cut to an integer.\<close>

definition timeClip :: "jsnum \<Rightarrow> int option" where
  "timeClip x =
     (case x of
        Fin r \<Rightarrow>
          if \<bar>r\<bar> \<le> 8640000000000000 then Some (if 0 \<le> r then \<lfloor>r\<rfloor> else \<lceil>r\<rceil>) else None
      | _ \<Rightarrow> None)"

text \<open>\<open>new Date(v)\<close>, as the time value of the new date: a date is copied, a string is
  parsed, another primitive is taken as a number of milliseconds, an object is
  converted to a string and parsed.\<close>

fun newDate :: "host \<Rightarrow> jsval \<Rightarrow> int option" where
  "newDate h (DateObj t) = t"
| "newDate h (Str s) = dateParse h s"
| "newDate h Undefined = None"
| "newDate h Null = Some 0"
| "newDate h (Bool b) = Some (if b then 1 else 0)"
| "newDate h (Num x) = timeClip x"
| "newDate h v = dateParse h (toStr h v)"

text \<open>\<open>new Date().toISOString().split('T')[0]\<close>: the current date.\<close>

definition today :: "host \<Rightarrow> string" where
  "today h = (case toISOString (Some (now h)) of Inl e \<Rightarrow> [] | Inr s \<Rightarrow> splitT0 s)"

text \<open>Comparison of two dates with \<open><\<close>: by time value, false when either is invalid.\<close>

definition dateLess :: "int option \<Rightarrow> int option \<Rightarrow> bool" where
  "dateLess a b = (case a of None \<Rightarrow> False | Some x \<Rightarrow> (case b of None \<Rightarrow> False | Some y \<Rightarrow> x < y))"

section \<open>The script\<close>

subsection \<open>\<open>formatDate\<close>\<close>

definition formatDate :: "host \<Rightarrow> jsval \<Rightarrow> jsval" where
  "formatDate h dateValue =
     (if \<not> truthy dateValue then Null
      else (case toISOString (newDate h dateValue) of
              Inr s \<Rightarrow> Str (splitT0 s)
            | Inl error \<Rightarrow> Null))"

subsection \<open>Responses\<close>

record orderRecord =
  orderId :: jsval
  projectId :: jsval
  projectName :: jsval
  projectType :: jsval
  region :: jsval
  price :: jsval
  date :: jsval

text \<open>The values the script serialises: the array of records, \<open>{error: message}\<close>, and
  \<open>{success: true, message, orderId, projectId}\<close>.\<close>

datatype payload =
    Records "orderRecord list"
  | ErrorObject string
  | Success string string string

datatype mime = MimeJSON | MimeText

text \<open>A text output of the content service: what was serialised and the MIME type.\<close>

record response =
  content :: payload
  mimeType :: mime

definition createJsonResponse :: "payload \<Rightarrow> response" where
  "createJsonResponse data = \<lparr>content = data, mimeType = MimeJSON\<rparr>"

definition createErrorResponse :: "string \<Rightarrow> response" where
  "createErrorResponse msg = \<lparr>content = ErrorObject msg, mimeType = MimeJSON\<rparr>"

subsection \<open>The spreadsheet\<close>

text \<open>
  The spreadsheet maps the name of a sheet to its rows, first row first, down to the
  last row that has content; a sheet handle is the sheet's name.  \<open>getLastRow\<close> is the
  number of rows; the values of the data range of a sheet without content are one row
  with one empty cell; \<open>appendRow\<close> puts the row after the last one, as given;
  \<open>setValues\<close> writes a block of rows from a row number on, from column 1.  A call
  that throws changes nothing.
\<close>

type_synonym row = "jsval list"
type_synonym spreadsheet = "string \<Rightarrow> row list option"

definition sheetRows :: "spreadsheet \<Rightarrow> string \<Rightarrow> row list" where
  "sheetRows ss name = (case ss name of None \<Rightarrow> [] | Some rs \<Rightarrow> rs)"

definition getActiveSpreadsheet :: "host \<Rightarrow> spreadsheet \<Rightarrow> exn + spreadsheet" where
  "getActiveSpreadsheet h ss = hostCall h GetActiveSpreadsheet ss"

definition getSheetByName :: "host \<Rightarrow> spreadsheet \<Rightarrow> string \<Rightarrow> exn + string option" where
  "getSheetByName h ss name =
     hostCall h GetSheetByName (case ss name of None \<Rightarrow> None | Some rs \<Rightarrow> Some name)"

definition getDataRange :: "host \<Rightarrow> spreadsheet \<Rightarrow> string \<Rightarrow> exn + row list" where
  "getDataRange h ss sheet =
     hostCall h GetDataRange (if sheetRows ss sheet = [] then [[Str []]] else sheetRows ss sheet)"

definition getValues :: "host \<Rightarrow> row list \<Rightarrow> exn + row list" where
  "getValues h dataRange = hostCall h GetValues dataRange"

definition getLastRow :: "host \<Rightarrow> spreadsheet \<Rightarrow> string \<Rightarrow> exn + nat" where
  "getLastRow h ss sheet = hostCall h GetLastRow (length (sheetRows ss sheet))"

definition appendRow :: "host \<Rightarrow> spreadsheet \<Rightarrow> string \<Rightarrow> row \<Rightarrow> exn + spreadsheet" where
  "appendRow h ss sheet rowData =
     hostCall h AppendRow (ss(sheet \<mapsto> sheetRows ss sheet @ [rowData]))"

definition insertSheet :: "host \<Rightarrow> spreadsheet \<Rightarrow> string \<Rightarrow> exn + spreadsheet \<times> string" where
  "insertSheet h ss name = hostCall h InsertSheet (ss(name \<mapsto> []), name)"

definition writeRows :: "row list \<Rightarrow> nat \<Rightarrow> row list \<Rightarrow> row list" where
  "writeRows rs r vs =
     (let padded = rs @ replicate (r - 1 + length vs - length rs) []
      in take (r - 1) padded
         @ map (\<lambda>(new, old). new @ drop (length new) old) (zip vs (drop (r - 1) padded))
         @ drop (r - 1 + length vs) padded)"

definition setValues :: "host \<Rightarrow> spreadsheet \<Rightarrow> string \<Rightarrow> nat \<Rightarrow> row list \<Rightarrow> exn + spreadsheet" where
  "setValues h ss sheet r vs =
     bindE (hostCall h (GetRange r) ()) (\<lambda>target.
       hostCall h (SetValues r) (ss(sheet \<mapsto> writeRows (sheetRows ss sheet) r vs)))"

subsection \<open>\<open>doGet\<close>\<close>

text \<open>\<open>!v\<close>, and \<open>x || 0\<close> for a number \<open>x\<close>.\<close>

definition jsNot :: "jsval \<Rightarrow> bool" where
  "jsNot v = (\<not> truthy v)"

definition orZero :: "jsnum \<Rightarrow> jsnum" where
  "orZero x = (if truthy (Num x) then x else Fin 0)"

text \<open>The callback of \<open>rows.map\<close> in \<open>doGet\<close>: one row, at its 0-based index among the
  data rows, to one record.\<close>

definition rowToRecord :: "host \<Rightarrow> row \<Rightarrow> nat \<Rightarrow> orderRecord" where
  "rowToRecord h row index =
     \<lparr>orderId = orElse (cellAt row 0)
                  (Str (''ORD-'' @ padStart 3 CHR ''0'' (natToString (index + 1)))),
      projectId = orElse (cellAt row 1)
                    (Str (''PRJ-'' @ padStart 3 CHR ''0'' (natToString (index + 1)))),
      projectName = orElse (cellAt row 2) (Str ''Unnamed Project''),
      projectType = orElse (cellAt row 3) (Str ''Other''),
      region = orElse (cellAt row 4) (Str ''Unknown''),
      price = Num (orZero (parseFloat (cellAt row 5))),
      date = orElse (formatDate h (cellAt row 6)) (Str (today h))\<rparr>"

definition doGet :: "host \<Rightarrow> spreadsheet \<Rightarrow> response" where
  \<open>doGet h ss =
     (case
        bindE (getActiveSpreadsheet h ss) (\<lambda>spreadsheet.
        bindE (getSheetByName h spreadsheet ''graph'') (\<lambda>sheet.
          case sheet of
            None \<Rightarrow>
              Inr (createErrorResponse
                ''Sheet "graph" not found. Please create a sheet named "graph" with the required columns.'')
          | Some sh \<Rightarrow>
              bindE (getDataRange h spreadsheet sh) (\<lambda>dataRange.
              bindE (getValues h dataRange) (\<lambda>data.
                if length data \<le> 1 then Inr (createJsonResponse (Records []))
                else
                  let rows = drop 1 data;
                      jsonData = map (\<lambda>(index, row). rowToRecord h row index) (enumerate 0 rows)
                  in Inr (createJsonResponse (Records jsonData))))))
      of
        Inr r \<Rightarrow> r
      | Inl error \<Rightarrow> createErrorResponse (''Failed to fetch data: '' @ message error))\<close>

subsection \<open>\<open>doPost\<close>\<close>

text \<open>The handler returns its response and the spreadsheet it leaves behind.\<close>

definition doPost :: "host \<Rightarrow> jsval \<Rightarrow> spreadsheet \<Rightarrow> response \<times> spreadsheet" where
  \<open>doPost h e ss =
     (case
        bindE (getMember e ''postData'') (\<lambda>postData.
        bindE (getMember postData ''contents'') (\<lambda>contents.
        bindE (jsonParse h (toStr h contents)) (\<lambda>data.
        bindE (getMember data ''projectName'') (\<lambda>projectName.
        bindE (getMember data ''projectType'') (\<lambda>projectType.
        bindE (getMember data ''region'') (\<lambda>region.
        bindE (getMember data ''price'') (\<lambda>price.
          if jsNot projectName \<or> jsNot projectType \<or> jsNot region \<or> jsNot price
          then Inr (createErrorResponse ''Missing required fields'', ss)
          else
            bindE (getActiveSpreadsheet h ss) (\<lambda>spreadsheet.
            bindE (getSheetByName h spreadsheet ''graph'') (\<lambda>sheet.
              case sheet of
                None \<Rightarrow>
                  Inr (createErrorResponse
                    ''Sheet "graph" not found. Please create a sheet named "graph" first.'', ss)
              | Some sh \<Rightarrow>
                  bindE (getLastRow h spreadsheet sh) (\<lambda>lastRow.
                    let orderId = ''ORD-'' @ padStart 3 CHR ''0'' (natToString lastRow);
                        projectId = ''PRJ-'' @ padStart 3 CHR ''0'' (natToString lastRow);
                        rowData = [Str orderId, Str projectId, projectName, projectType,
                                   region, price, Str (today h)]
                    in bindE (appendRow h spreadsheet sh rowData) (\<lambda>appended.
                         Inr (createJsonResponse
                                (Success ''Data added successfully'' orderId projectId),
                              appended))))))))))))
      of
        Inr r \<Rightarrow> r
      | Inl error \<Rightarrow> (createErrorResponse (''Failed to add data: '' @ message error), ss))\<close>

subsection \<open>\<open>getDataByFilter\<close>\<close>

text \<open>\<open>rows.filter\<close> with a callback that may throw.\<close>

fun filterE :: "('a \<Rightarrow> exn + bool) \<Rightarrow> 'a list \<Rightarrow> exn + 'a list" where
  "filterE p [] = Inr []"
| "filterE p (x # xs) =
     bindE (p x) (\<lambda>keep.
     bindE (filterE p xs) (\<lambda>rest. Inr (if keep then x # rest else rest)))"

text \<open>The callback of \<open>rows.filter\<close>.\<close>

definition keepRow :: "host \<Rightarrow> jsval \<Rightarrow> row \<Rightarrow> exn + bool" where
  "keepRow h criteria row =
     bindE (getMember criteria ''projectType'') (\<lambda>projectType.
       if truthy projectType \<and> \<not> strictEq (cellAt row 3) projectType then Inr False
       else
         bindE (getMember criteria ''region'') (\<lambda>region.
           if truthy region \<and> \<not> strictEq (cellAt row 4) region then Inr False
           else
             bindE (getMember criteria ''startDate'') (\<lambda>startDate.
               if truthy startDate then
                 bindE (getMember criteria ''endDate'') (\<lambda>endDate.
                   if truthy endDate then
                     let rowDate = newDate h (cellAt row 6);
                         startD = newDate h startDate;
                         endD = newDate h endDate
                     in if dateLess rowDate startD \<or> dateLess endD rowDate then Inr False
                        else Inr True
                   else Inr True)
               else Inr True)))"

definition getDataByFilter :: "host \<Rightarrow> jsval \<Rightarrow> spreadsheet \<Rightarrow> exn + row list" where
  "getDataByFilter h criteria ss =
     bindE (getActiveSpreadsheet h ss) (\<lambda>spreadsheet.
     bindE (getSheetByName h spreadsheet ''graph'') (\<lambda>sheet.
       case sheet of
         None \<Rightarrow> Inr []
       | Some sh \<Rightarrow>
           bindE (getDataRange h spreadsheet sh) (\<lambda>dataRange.
           bindE (getValues h dataRange) (\<lambda>data.
             filterE (keepRow h criteria) (drop 1 data)))))"

subsection \<open>\<open>getStatistics\<close>\<close>

record statistics =
  totalOrders :: nat
  totalRevenue :: jsnum
  avgPrice :: jsnum
  projectTypeCounts :: "(string \<times> jsval) list"
  regionCounts :: "(string \<times> jsval) list"

text \<open>\<open>counts[k] = (counts[k] || 0) + 1\<close>, the key being the string form of \<open>k\<close>.\<close>

definition countUp :: "host \<Rightarrow> (string \<times> jsval) list \<Rightarrow> jsval \<Rightarrow> (string \<times> jsval) list" where
  "countUp h counts k =
     setMember counts (toStr h k)
       (jsPlus h (orElse (getProperty counts (toStr h k)) (Num (Fin 0))) (Num (Fin 1)))"

definition getStatistics :: "host \<Rightarrow> spreadsheet \<Rightarrow> exn + statistics" where
  "getStatistics h ss =
     bindE (getActiveSpreadsheet h ss) (\<lambda>spreadsheet.
     bindE (getSheetByName h spreadsheet ''graph'') (\<lambda>sheet.
       case sheet of
         None \<Rightarrow>
           Inr \<lparr>totalOrders = 0, totalRevenue = Fin 0, avgPrice = Fin 0,
                projectTypeCounts = [], regionCounts = []\<rparr>
       | Some sh \<Rightarrow>
           bindE (getDataRange h spreadsheet sh) (\<lambda>dataRange.
           bindE (getValues h dataRange) (\<lambda>data.
             let rows = drop 1 data;
                 orders = length rows;
                 revenue = foldl (\<lambda>sum row. jsAdd sum (orZero (parseFloat (cellAt row 5))))
                             (Fin 0) rows;
                 average = (if orders > 0 then jsDivNat revenue orders else Fin 0);
                 typeCounts = foldl (\<lambda>counts row.
                                countUp h counts (orElse (cellAt row 3) (Str ''Other''))) [] rows;
                 regCounts = foldl (\<lambda>counts row.
                               countUp h counts (orElse (cellAt row 4) (Str ''Unknown''))) [] rows
             in Inr \<lparr>totalOrders = orders, totalRevenue = revenue, avgPrice = average,
                     projectTypeCounts = typeCounts, regionCounts = regCounts\<rparr>))))"

subsection \<open>\<open>setupSheet\<close>\<close>

definition headers :: row where
  "headers = [Str ''Order ID'', Str ''Project ID'', Str ''Project Name'', Str ''Project Type'',
              Str ''Region'', Str ''Price'', Str ''Date'']"

definition sampleData :: "row list" where
  "sampleData =
     [[Str ''ORD-001'', Str ''PRJ-001'', Str ''E-commerce Website'', Str ''Development'',
       Str ''North America'', Num (Fin 15000), Str ''2024-01-15''],
      [Str ''ORD-002'', Str ''PRJ-002'', Str ''Brand Identity Design'', Str ''Design'',
       Str ''Europe'', Num (Fin 8000), Str ''2024-01-20''],
      [Str ''ORD-003'', Str ''PRJ-003'', Str ''Digital Marketing Campaign'', Str ''Marketing'',
       Str ''Asia Pacific'', Num (Fin 12000), Str ''2024-01-25''],
      [Str ''ORD-004'', Str ''PRJ-004'', Str ''Mobile App Development'', Str ''Development'',
       Str ''North America'', Num (Fin 25000), Str ''2024-02-01''],
      [Str ''ORD-005'', Str ''PRJ-005'', Str ''UI/UX Redesign'', Str ''Design'',
       Str ''Europe'', Num (Fin 9500), Str ''2024-02-05'']]"

definition setupSheet :: "host \<Rightarrow> spreadsheet \<Rightarrow> exn + spreadsheet" where
  "setupSheet h ss =
     bindE (getActiveSpreadsheet h ss) (\<lambda>spreadsheet.
     bindE (getSheetByName h spreadsheet ''graph'') (\<lambda>found.
     bindE (case found of
              None \<Rightarrow> insertSheet h spreadsheet ''graph''
            | Some sh \<Rightarrow> Inr (spreadsheet, sh)) (\<lambda>(current, sheet).
     bindE (getLastRow h current sheet) (\<lambda>lastRow.
       if lastRow = 0 then
         bindE (setValues h current sheet 1 [headers]) (\<lambda>withHeaders.
           setValues h withHeaders sheet 2 sampleData)
       else Inr current))))"

section \<open>An example host and example data\<close>

text \<open>
  A host without faults, used to run the script on concrete inputs.  Its \<open>Date.parse\<close>
  reads the date-only form \<open>YYYY-MM-DD\<close> (midnight UTC) and nothing else; its clock
  stands at 2024-03-01T10:00:00Z; it prints integers in decimal, dates in UTC and
  built-in functions as native code; its \<open>JSON.parse\<close> knows the request bodies below.
\<close>

definition daysFromCivil :: "int \<Rightarrow> int \<Rightarrow> int \<Rightarrow> int" where
  "daysFromCivil y0 m d =
     (let y = (if m \<le> 2 then y0 - 1 else y0);
          era = y div 400;
          yoe = y - era * 400;
          doy = (153 * (if m > 2 then m - 3 else m + 9) + 2) div 5 + d - 1;
          doe = yoe * 365 + yoe div 4 - yoe div 100 + doy
      in era * 146097 + doe - 719468)"

definition exampleDateParse :: "string \<Rightarrow> int option" where
  "exampleDateParse s =
     (if length s = 10 \<and> s ! 4 = CHR ''-'' \<and> s ! 7 = CHR ''-''
         \<and> list_all isDigit (take 4 s @ take 2 (drop 5 s) @ drop 8 s)
      then
        let y = digitsVal (take 4 s);
            m = digitsVal (take 2 (drop 5 s));
            d = digitsVal (drop 8 s);
            n = daysFromCivil y m d
        in if 1 \<le> m \<and> m \<le> 12 \<and> 1 \<le> d \<and> civilFromDays n = (y, m, d)
           then Some (n * 86400000) else None
      else None)"

definition exampleNumberToString :: "jsnum \<Rightarrow> string" where
  "exampleNumberToString x =
     (case x of
        NaN \<Rightarrow> ''NaN''
      | PosInf \<Rightarrow> ''Infinity''
      | NegInf \<Rightarrow> ''-Infinity''
      | Fin r \<Rightarrow> (if r < 0 then ''-'' else []) @ natToString (nat \<lfloor>\<bar>r\<bar>\<rfloor>))"

definition exampleDateToString :: "int option \<Rightarrow> string" where
  "exampleDateToString t =
     (case toISOString t of
        Inl e \<Rightarrow> ''Invalid Date''
      | Inr s \<Rightarrow> ''Date '' @ s)"

definition exampleBuiltinToString :: "string \<Rightarrow> string" where
  "exampleBuiltinToString k =
     (if k = ''__proto__'' then ''[object Object]''
      else ''function '' @ (if k = ''constructor'' then ''Object'' else k)
           @ ''() { [native code] }'')"

definition exampleBody :: string where
  \<open>exampleBody = ''{"projectName":"Logo","projectType":"Design","region":"EU","price":1200}''\<close>

definition exampleBodyNoPrice :: string where
  \<open>exampleBodyNoPrice = ''{"projectName":"Logo","projectType":"Design","region":"EU"}''\<close>

definition exampleJsonParse :: "string \<Rightarrow> exn + jsval" where
  "exampleJsonParse s =
     (if s = exampleBody then
        Inr (Obj [(''projectName'', Str ''Logo''), (''projectType'', Str ''Design''),
                  (''region'', Str ''EU''), (''price'', Num (Fin 1200))])
      else if s = exampleBodyNoPrice then
        Inr (Obj [(''projectName'', Str ''Logo''), (''projectType'', Str ''Design''),
                  (''region'', Str ''EU'')])
      else if s = ''null'' then Inr Null
      else Inl (Exn ''Unexpected token in JSON''))"

definition exampleHost :: host where
  "exampleHost =
     \<lparr>faults = (\<lambda>c. None),
      jsonParse = exampleJsonParse,
      dateParse = exampleDateParse,
      now = 1709287200000,
      numberToString = exampleNumberToString,
      dateToString = exampleDateToString,
      builtinToString = exampleBuiltinToString\<rparr>"

text \<open>The same host with a spreadsheet service whose \<open>getValues\<close> and \<open>appendRow\<close>
  throw.\<close>

definition faultyHost :: host where
  "faultyHost =
     exampleHost\<lparr>faults :=
       (\<lambda>c. if c = GetValues \<or> c = AppendRow then Some (Exn ''Service error'') else None)\<rparr>"

definition postEvent :: "string \<Rightarrow> jsval" where
  "postEvent body = Obj [(''postData'', Obj [(''contents'', Str body)])]"

definition noSheets :: spreadsheet where
  "noSheets = (\<lambda>name. None)"

text \<open>The spreadsheet after \<open>setupSheet\<close>: the header and the five sample rows.\<close>

definition seeded :: spreadsheet where
  "seeded = noSheets(''graph'' \<mapsto> headers # sampleData)"

text \<open>The two rows of the end-to-end example of the specification, under the header.\<close>

definition twoRows :: spreadsheet where
  "twoRows = noSheets(''graph'' \<mapsto>
     [headers,
      [Str ''ORD-001'', Str ''PRJ-001'', Str ''Site'', Str ''Development'', Str ''NA'',
       Num (Fin 15000), Str ''2024-01-15''],
      [Str ''ORD-002'', Str ''PRJ-002'', Str ''Logo'', Str ''Design'', Str ''EU'',
       Str ''abc'', Str ''2024-01-20'']])"

text \<open>A sheet with one data row whose price cell holds the text \<open>Infinity\<close>, one whose
  project type cell holds the number 0, one whose project type is the word
  \<open>constructor\<close>, and one whose date cell is empty.\<close>

definition infinitePriceRow :: row where
  "infinitePriceRow = [Str ''ORD-001'', Str ''PRJ-001'', Str ''Site'', Str ''Development'',
                       Str ''NA'', Str ''Infinity'', Str ''2024-01-15'']"

definition zeroTypeSheet :: spreadsheet where
  "zeroTypeSheet = noSheets(''graph'' \<mapsto>
     [headers,
      [Str ''ORD-001'', Str ''PRJ-001'', Str ''Site'', Num (Fin 0), Str ''NA'',
       Num (Fin 15000), Str ''2024-01-15'']])"

definition constructorSheet :: spreadsheet where
  "constructorSheet = noSheets(''graph'' \<mapsto>
     [headers,
      [Str ''ORD-001'', Str ''PRJ-001'', Str ''Site'', Str ''constructor'', Str ''NA'',
       Num (Fin 15000), Str ''2024-01-15'']])"

text \<open>A sheet whose two data rows have the prices 0.1 and 0.2.\<close>

definition tenthsSheet :: spreadsheet where
  "tenthsSheet = noSheets(''graph'' \<mapsto>
     [headers,
      [Str ''ORD-001'', Str ''PRJ-001'', Str ''Site'', Str ''Development'', Str ''NA'',
       Num (Fin (1 / 10)), Str ''2024-01-15''],
      [Str ''ORD-002'', Str ''PRJ-002'', Str ''Logo'', Str ''Design'', Str ''EU'',
       Num (Fin (2 / 10)), Str ''2024-01-20'']])"

definition undatedRow :: row where
  "undatedRow = [Str ''ORD-001'', Str ''PRJ-001'', Str ''Site'', Str ''Development'',
                 Str ''NA'', Num (Fin 15000), Str []]"

definition undatedSheet :: spreadsheet where
  "undatedSheet = noSheets(''graph'' \<mapsto> [headers, undatedRow])"

definition year2024 :: jsval where
  "year2024 = Obj [(''startDate'', Str ''2024-01-01''), (''endDate'', Str ''2024-12-31'')]"

section \<open>The statements of the specification\<close>

subsection \<open>Request bodies\<close>

text \<open>A field of a parsed request body, \<open>None\<close> when it is absent; a body that is not an
  object has no fields.\<close>

definition fieldOf :: "jsval \<Rightarrow> string \<Rightarrow> jsval option" where
  "fieldOf body k = (case body of Obj flds \<Rightarrow> map_of flds k | _ \<Rightarrow> None)"

subsection \<open>Statistics\<close>

text \<open>
  The price a row contributes to the revenue: the parsed price cell, 0 when it does not
  parse.  The revenue is the sum over the rows in the order of the sheet, starting
  from 0: each row's price is added to the sum so far, and each addition rounds as the
  addition of doubles does.
\<close>

definition parsedPrice :: "row \<Rightarrow> jsnum" where
  "parsedPrice row = (case parseFloat (cellAt row 5) of NaN \<Rightarrow> Fin 0 | x \<Rightarrow> x)"

fun sumPricesFrom :: "jsnum \<Rightarrow> row list \<Rightarrow> jsnum" where
  "sumPricesFrom soFar [] = soFar"
| "sumPricesFrom soFar (r # rs) = sumPricesFrom (jsAdd soFar (parsedPrice r)) rs"

definition sumPrices :: "row list \<Rightarrow> jsnum" where
  "sumPrices rows = sumPricesFrom (Fin 0) rows"

text \<open>
  The key a row is counted under: the string form of its project type cell, or of its
  region cell, with the default in place of a cell that is missing, empty, 0 or
  \<open>false\<close>.
\<close>

definition typeLabel :: "host \<Rightarrow> row \<Rightarrow> string" where
  "typeLabel h row = toStr h (orElse (cellAt row 3) (Str ''Other''))"

definition regionLabel :: "host \<Rightarrow> row \<Rightarrow> string" where
  "regionLabel h row = toStr h (orElse (cellAt row 4) (Str ''Unknown''))"

definition occurrences :: "string \<Rightarrow> string list \<Rightarrow> nat" where
  "occurrences k labels = length (filter (\<lambda>l. l = k) labels)"

text \<open>What a counts object holds under a key that occurs \<open>n\<close> times.\<close>

definition counted :: "nat \<Rightarrow> jsval option" where
  "counted n = (if n = 0 then None else Some (Num (Fin (of_nat n))))"

subsection \<open>Filtering\<close>

text \<open>
  A date lies in the inclusive range when all three dates are valid and it is neither
  before the start nor after the end.
\<close>

definition withinRange :: "int option \<Rightarrow> int option \<Rightarrow> int option \<Rightarrow> bool" where
  "withinRange d lo hi =
     (case d of
        None \<Rightarrow> False
      | Some x \<Rightarrow>
          (case lo of
             None \<Rightarrow> False
           | Some a \<Rightarrow> (case hi of None \<Rightarrow> False | Some b \<Rightarrow> a \<le> x \<and> x \<le> b)))"

section \<open>Basic facts\<close>

lemma bindE_Inr [simp]: "bindE (Inr x) f = f x"
  by (simp add: bindE_def)

lemma bindE_Inl [simp]: "bindE (Inl e) f = Inl e"
  by (simp add: bindE_def)

lemmas host_ops =
  getActiveSpreadsheet_def getSheetByName_def getDataRange_def getValues_def
  getLastRow_def appendRow_def insertSheet_def setValues_def

lemma writeRows_empty: "writeRows [] (Suc 0) [r] = [r]"
  by (simp add: writeRows_def)

lemma writeRows_below: "writeRows [r] 2 vs = r # vs"
  by (simp add: writeRows_def zip_replicate2 o_def map_idI)

lemma seed_rows: "writeRows (writeRows [] (Suc 0) [headers]) 2 sampleData = headers # sampleData"
  by (simp only: writeRows_empty writeRows_below)

lemma setupSheet_empty:
  assumes "faults h = (\<lambda>c. None)" and "sheetRows ss ''graph'' = []"
  shows "setupSheet h ss = Inr (ss(''graph'' \<mapsto> headers # sampleData))"
proof (cases "ss ''graph''")
  case None
  then show ?thesis
    using assms(1)
    by (simp add: setupSheet_def host_ops hostCall_def sheetRows_def seed_rows)
next
  case (Some rs)
  with assms(2) have "rs = []" by (simp add: sheetRows_def)
  with Some show ?thesis
    using assms(1)
    by (simp add: setupSheet_def host_ops hostCall_def sheetRows_def seed_rows)
qed

lemma setupSheet_nonempty:
  assumes "faults h = (\<lambda>c. None)" and "sheetRows ss ''graph'' \<noteq> []"
  shows "setupSheet h ss = Inr ss"
proof (cases "ss ''graph''")
  case None
  with assms(2) show ?thesis by (simp add: sheetRows_def)
next
  case (Some rs)
  with assms show ?thesis
    by (simp add: setupSheet_def host_ops hostCall_def sheetRows_def)
qed

lemma orElse_defined: "b \<noteq> Undefined \<Longrightarrow> orElse a b \<noteq> Undefined"
  by (cases a) (simp_all add: orElse_def)

lemma orZero_not_NaN: "orZero x \<noteq> NaN"
  by (cases x) (simp_all add: orZero_def)

lemma parseFloat_abc: "parseFloatStr ''abc'' = NaN"
  by (simp add: parseFloatStr_def isSpace_def isDigit_def)

lemma parseFloat_Infinity: "parseFloatStr ''Infinity'' = PosInf"
  by (simp add: parseFloatStr_def isSpace_def isDigit_def)

lemma doGet_rows:
  assumes "faults h = (\<lambda>c. None)" and "ss ''graph'' = Some (hdr # rows)"
  shows "doGet h ss =
           createJsonResponse (Records (map (\<lambda>(index, row). rowToRecord h row index) (enumerate 0 rows)))"
  using assms by (cases rows) (simp_all add: doGet_def host_ops hostCall_def sheetRows_def)

lemma absent_member:
  "k \<notin> set prototypeNames \<Longrightarrow> map_of flds k = None \<Longrightarrow> getProperty flds k = Undefined"
  by (simp add: getProperty_def objectPrototype_def)

lemma present_member: "map_of flds k = Some v \<Longrightarrow> getProperty flds k = v"
  by (simp add: getProperty_def)

lemma field_names_not_inherited:
  "''projectName'' \<notin> set prototypeNames" "''projectType'' \<notin> set prototypeNames"
  "''region'' \<notin> set prototypeNames" "''price'' \<notin> set prototypeNames"
  by (simp_all add: prototypeNames_def)

lemma member_of_body:
  assumes "body \<noteq> Null" and "body \<noteq> Undefined" and "k \<notin> set prototypeNames"
  shows "getMember body k = Inr (case fieldOf body k of None \<Rightarrow> Undefined | Some v \<Rightarrow> v)"
  using assms
  by (cases body) (simp_all add: fieldOf_def getProperty_def objectPrototype_def split: option.splits)

lemma doPost_parsed:
  assumes "getMember e ''postData'' = Inr postData"
      and "getMember postData ''contents'' = Inr contents"
      and "jsonParse h (toStr h contents) = Inr (Obj flds)"
  shows \<open>doPost h e ss =
     (let projectName = getProperty flds ''projectName'';
          projectType = getProperty flds ''projectType'';
          region = getProperty flds ''region'';
          price = getProperty flds ''price''
      in case
          (if jsNot projectName \<or> jsNot projectType \<or> jsNot region \<or> jsNot price
          then Inr (createErrorResponse ''Missing required fields'', ss)
          else
            bindE (getActiveSpreadsheet h ss) (\<lambda>spreadsheet.
            bindE (getSheetByName h spreadsheet ''graph'') (\<lambda>sheet.
              case sheet of
                None \<Rightarrow>
                  Inr (createErrorResponse
                    ''Sheet "graph" not found. Please create a sheet named "graph" first.'', ss)
              | Some sh \<Rightarrow>
                  bindE (getLastRow h spreadsheet sh) (\<lambda>lastRow.
                    let orderId = ''ORD-'' @ padStart 3 CHR ''0'' (natToString lastRow);
                        projectId = ''PRJ-'' @ padStart 3 CHR ''0'' (natToString lastRow);
                        rowData = [Str orderId, Str projectId, projectName, projectType,
                                   region, price, Str (today h)]
                    in bindE (appendRow h spreadsheet sh rowData) (\<lambda>appended.
                         Inr (createJsonResponse
                                (Success ''Data added successfully'' orderId projectId),
                              appended))))))
      of
        Inr r \<Rightarrow> r
      | Inl error \<Rightarrow> (createErrorResponse (''Failed to add data: '' @ message error), ss))\<close>
  using assms by (simp add: doPost_def Let_def)

lemma example_post:
  "getMember (postEvent body) ''postData'' = Inr (Obj [(''contents'', Str body)])"
  "getMember (Obj [(''contents'', Str body)]) ''contents'' = Inr (Str body)"
  by (simp_all add: postEvent_def getProperty_def)

lemma null_body_is_an_error:
  assumes "getMember e ''postData'' = Inr postData"
      and "getMember postData ''contents'' = Inr contents"
      and "jsonParse h (toStr h contents) = Inr Null"
  shows "doPost h e ss =
           (createErrorResponse
              ''Failed to add data: Cannot read properties of null (reading projectName)'', ss)"
  using assms by (simp add: doPost_def)

lemma doPost_appends:
  assumes "faults h = (\<lambda>c. None)"
      and "getMember e ''postData'' = Inr postData"
      and "getMember postData ''contents'' = Inr contents"
      and "jsonParse h (toStr h contents) = Inr (Obj flds)"
      and "truthy (getProperty flds ''projectName'')"
      and "truthy (getProperty flds ''projectType'')"
      and "truthy (getProperty flds ''region'')"
      and "truthy (getProperty flds ''price'')"
      and "ss ''graph'' = Some rs"
  shows "doPost h e ss =
     (createJsonResponse (Success ''Data added successfully''
         (''ORD-'' @ padStart 3 CHR ''0'' (natToString (length rs)))
         (''PRJ-'' @ padStart 3 CHR ''0'' (natToString (length rs)))),
      ss(''graph'' \<mapsto> rs @
         [[Str (''ORD-'' @ padStart 3 CHR ''0'' (natToString (length rs))),
           Str (''PRJ-'' @ padStart 3 CHR ''0'' (natToString (length rs))),
           getProperty flds ''projectName'', getProperty flds ''projectType'',
           getProperty flds ''region'', getProperty flds ''price'', Str (today h)]]))"
  unfolding doPost_parsed [OF assms(2-4)] Let_def
  using assms(1,5-9)
  by (simp add: jsNot_def host_ops hostCall_def sheetRows_def)

lemma last_record:
  "map (\<lambda>(index, row). rowToRecord h row index) (enumerate 0 (rows @ [new])) ! length rows
     = rowToRecord h new (length rows)"
proof -
  have at: "enumerate 0 (rows @ [new]) ! length rows = (0 + length rows, (rows @ [new]) ! length rows)"
    by (rule nth_enumerate_eq) simp
  have "length rows < length (enumerate 0 (rows @ [new]))"
    by simp
  then have "map (\<lambda>(index, row). rowToRecord h row index) (enumerate 0 (rows @ [new])) ! length rows
      = (\<lambda>(index, row). rowToRecord h row index) (enumerate 0 (rows @ [new]) ! length rows)"
    by (rule nth_map)
  then show ?thesis
    unfolding at by simp
qed

lemma digitVal_digitChar: "d < 10 \<Longrightarrow> digitVal (digitChar d) = d"
proof -
  assume "d < 10"
  then have "d \<in> {0, 1, 2, 3, 4, 5, 6, 7, 8, 9}" by auto
  then show ?thesis
    by (auto simp: digitVal_def digitChar_def)
qed

lemma isDigit_digitChar: "d < 10 \<Longrightarrow> isDigit (digitChar d)"
proof -
  assume "d < 10"
  then have "d \<in> {0, 1, 2, 3, 4, 5, 6, 7, 8, 9}" by auto
  then show ?thesis
    by (auto simp: isDigit_def digitChar_def)
qed

lemma digitsVal_snoc: "digitsVal (ds @ [c]) = 10 * digitsVal ds + int (digitVal c)"
  by (simp add: digitsVal_def)

lemma natToString_decimal: "digitsVal (natToString n) = int n \<and> list_all isDigit (natToString n)"
proof (induction n rule: natToString.induct)
  case (1 n)
  show ?case
  proof (cases "n < 10")
    case True
    then show ?thesis
      by (simp add: natToString.simps [of n] digitsVal_def digitVal_digitChar isDigit_digitChar)
  next
    case False
    with 1 have "digitsVal (natToString (n div 10)) = int (n div 10)"
      and "list_all isDigit (natToString (n div 10))" by simp_all
    moreover have "10 * int (n div 10) + int (n mod 10) = int n"
      by presburger
    ultimately show ?thesis
      using False
      by (simp add: natToString.simps [of n] digitsVal_snoc digitVal_digitChar isDigit_digitChar)
  qed
qed

lemma example_fields:
  "jsonParse exampleHost (toStr exampleHost (Str exampleBody))
     = Inr (Obj [(''projectName'', Str ''Logo''), (''projectType'', Str ''Design''),
                 (''region'', Str ''EU''), (''price'', Num (Fin 1200))])"
  by (simp add: exampleHost_def exampleJsonParse_def)

lemma bitLength_bound: "n < 2 ^ j \<Longrightarrow> bitLength n \<le> int j"
proof (induction n arbitrary: j rule: bitLength.induct)
  case (1 n)
  show ?case
  proof (cases "n \<le> 0")
    case True
    then show ?thesis by (simp add: bitLength.simps [of n])
  next
    case False
    with "1.prems" obtain i where j: "j = Suc i" by (cases j) auto
    with "1.prems" have "n div 2 < 2 ^ i" by auto
    with "1.IH" [OF False] have "bitLength (n div 2) \<le> int i" .
    with False j show ?thesis by (simp add: bitLength.simps [of n])
  qed
qed

lemma roundHalfEven_int: "roundHalfEven (of_int z) = z"
  by (simp add: roundHalfEven_def)

lemma floorLog2_nat:
  assumes "n < 2 ^ 53"
  shows "floorLog2 (of_nat n) \<le> 52"
proof -
  have q: "quotient_of (of_nat n :: rat) = (int n, 1)"
    using quotient_of_int [of "int n"] by simp
  have "int n < 2 ^ 53"
    using assms by (metis of_nat_less_iff of_nat_numeral of_nat_power)
  then have "bitLength (int n) \<le> int 53" by (rule bitLength_bound)
  moreover have "bitLength 1 = 1" by (simp add: bitLength.simps)
  ultimately show ?thesis
    by (simp add: floorLog2_def q Let_def)
qed

lemma scale2_restores:
  assumes "e \<le> 0"
  shows "scale2 (of_int (roundHalfEven (scale2 (of_nat n) (- e)))) e = of_nat n"
proof -
  have up: "scale2 (of_nat n) (- e) = of_int (int n * 2 ^ nat (- e))"
    using assms by (simp add: scale2_def)
  show ?thesis
    unfolding up roundHalfEven_int using assms
    by (cases "e = 0") (simp_all add: scale2_def)
qed

text \<open>A natural number below \<open>2^53\<close> is a double.\<close>

lemma roundDouble_nat:
  assumes "n < 2 ^ 53"
  shows "roundDouble (of_nat n) = Fin (of_nat n)"
proof (cases "n = 0")
  case True
  then show ?thesis by (simp add: roundDouble_def)
next
  case False
  define e where "e = max (floorLog2 (of_nat n) - 52) (- 1074)"
  have "e \<le> 0"
    using floorLog2_nat [OF assms] by (simp add: e_def)
  then have "scale2 (of_int (roundHalfEven (scale2 (of_nat n) (- e)))) e = of_nat n"
    by (rule scale2_restores)
  then have restored:
    "scale2 (of_int (roundHalfEven (scale2 (of_nat n)
        (- max (floorLog2 (of_nat n) - 52) (- 1074))))) (max (floorLog2 (of_nat n) - 52) (- 1074))
      = of_nat n"
    unfolding e_def .
  have small: "\<not> 971 < max (floorLog2 (of_nat n) - 52) (- 1074)"
    and "max (floorLog2 (of_nat n) - 52) (- 1074) \<noteq> 971"
    using \<open>e \<le> 0\<close> by (simp_all add: e_def)
  then show ?thesis
    using False
    by (simp add: roundDouble_def Let_def restored)
qed

lemma jsAdd_nat:
  assumes "a + b < 2 ^ 53"
  shows "jsAdd (Fin (of_nat a)) (Fin (of_nat b)) = Fin (of_nat (a + b))"
proof -
  from assms have "a < 2 ^ 53" and "b < 2 ^ 53" by simp_all
  then have "roundDouble (of_nat a) = Fin (of_nat a)" and "roundDouble (of_nat b) = Fin (of_nat b)"
    by (simp_all add: roundDouble_nat)
  then show ?thesis
    using roundDouble_nat [OF assms] by (simp add: jsAdd_def asDouble_def)
qed

lemma jsAdd_one:
  assumes "Suc n < 2 ^ 53"
  shows "jsAdd (Fin (of_nat n)) (Fin 1) = Fin (of_nat (Suc n))"
  using jsAdd_nat [of n 1] assms by simp

lemma orZero_parsedPrice: "orZero (parseFloat (cellAt row 5)) = parsedPrice row"
  by (cases "parseFloat (cellAt row 5)") (auto simp: orZero_def parsedPrice_def)

lemma price_fold:
  "foldl (\<lambda>sum row. jsAdd sum (parsedPrice row)) soFar rows = sumPricesFrom soFar rows"
  by (induction rows arbitrary: soFar) simp_all

lemma revenue_fold:
  "foldl (\<lambda>sum row. jsAdd sum (orZero (parseFloat (cellAt row 5)))) (Fin 0) rows = sumPrices rows"
  by (simp add: orZero_parsedPrice price_fold sumPrices_def)

lemma map_of_putOwn: "map_of (putOwn fs k v) k' = (if k' = k then Some v else map_of fs k')"
  by (induction fs k v rule: putOwn.induct) auto

lemma not_inherited_not_proto: "k \<notin> set prototypeNames \<Longrightarrow> k \<noteq> ''__proto__''"
  by (auto simp: prototypeNames_def)

lemma counted_property:
  assumes "k \<notin> set prototypeNames" and "map_of counts k = counted n" and "Suc n < 2 ^ 53"
  shows "jsPlus h (orElse (getProperty counts k) (Num (Fin 0))) (Num (Fin 1)) = Num (Fin (of_nat (Suc n)))"
proof (cases "n = 0")
  case True
  with assms(1,2) have "orElse (getProperty counts k) (Num (Fin 0)) = Num (Fin (of_nat 0))"
    by (simp add: counted_def getProperty_def objectPrototype_def orElse_def)
  then show ?thesis
    using jsAdd_one [of 0] True by (simp add: jsPlus_def)
next
  case False
  with assms(2) have "orElse (getProperty counts k) (Num (Fin 0)) = Num (Fin (of_nat n))"
    by (simp add: counted_def getProperty_def orElse_def)
  then show ?thesis
    using jsAdd_one [OF assms(3)] by (simp add: jsPlus_def)
qed

lemma countUp_step:
  assumes "k \<notin> set prototypeNames" and "map_of counts k = counted n" and "Suc n < 2 ^ 53"
  shows "map_of (countUp h counts v) k = counted (if toStr h v = k then Suc n else n)"
proof (cases "toStr h v = k")
  case True
  with assms show ?thesis
    using counted_property [OF assms, of h] not_inherited_not_proto [OF assms(1)]
    by (simp add: countUp_def setMember_def map_of_putOwn counted_def)
next
  case False
  with assms show ?thesis
    by (auto simp: countUp_def setMember_def map_of_putOwn)
qed

lemma counts_fold:
  assumes "k \<notin> set prototypeNames"
  shows "map_of acc k = counted n \<Longrightarrow> n + length rows < 2 ^ 53 \<Longrightarrow>
         map_of (foldl (\<lambda>counts row. countUp h counts (lab row)) acc rows) k
           = counted (n + occurrences k (map (\<lambda>row. toStr h (lab row)) rows))"
proof (induction rows arbitrary: acc n)
  case Nil
  then show ?case by (simp add: occurrences_def)
next
  case (Cons r rows)
  from Cons.prems(2) have room: "Suc n < 2 ^ 53" by simp
  have step: "map_of (countUp h acc (lab r)) k = counted (if toStr h (lab r) = k then Suc n else n)"
    by (rule countUp_step [OF assms Cons.prems(1) room])
  have "(if toStr h (lab r) = k then Suc n else n) + length rows < 2 ^ 53"
    using Cons.prems(2) by simp
  from Cons.IH [OF step this] show ?case
    by (simp add: occurrences_def)
qed

lemma counts_from_empty:
  assumes "k \<notin> set prototypeNames" and "length rows < 2 ^ 53"
  shows "map_of (foldl (\<lambda>counts row. countUp h counts (lab row)) [] rows) k
           = counted (occurrences k (map (\<lambda>row. toStr h (lab row)) rows))"
  using counts_fold [OF assms(1), of "[]" 0 rows h lab] assms(2) by (simp add: counted_def)

lemma getStatistics_rows:
  assumes "faults h = (\<lambda>c. None)" and "ss ''graph'' = Some (hdr # rows)"
  shows "getStatistics h ss =
     Inr \<lparr>totalOrders = length rows,
          totalRevenue = sumPrices rows,
          avgPrice = (if length rows > 0 then jsDivNat (sumPrices rows) (length rows) else Fin 0),
          projectTypeCounts = foldl (\<lambda>counts row.
                                countUp h counts (orElse (cellAt row 3) (Str ''Other''))) [] rows,
          regionCounts = foldl (\<lambda>counts row.
                               countUp h counts (orElse (cellAt row 4) (Str ''Unknown''))) [] rows\<rparr>"
  using assms
  by (simp add: getStatistics_def host_ops hostCall_def sheetRows_def Let_def revenue_fold)

lemma getStatistics_absent:
  assumes "faults h = (\<lambda>c. None)" and "ss ''graph'' = None"
  shows "getStatistics h ss =
     Inr \<lparr>totalOrders = 0, totalRevenue = Fin 0, avgPrice = Fin 0,
          projectTypeCounts = [], regionCounts = []\<rparr>"
  using assms by (simp add: getStatistics_def host_ops hostCall_def)

lemma example_sums:
  "jsAdd (Fin 0) (Fin 15000) = Fin 15000"
  "jsAdd (Fin 15000) (Fin 0) = Fin 15000"
  "jsDivNat (Fin 15000) 2 = Fin 7500"
  "jsAdd (Fin 0) (Fin 1) = Fin 1"
  by code_simp+

lemma getStatistics_twoRows:
  assumes "faults h = (\<lambda>c. None)"
  shows "getStatistics h twoRows =
     Inr \<lparr>totalOrders = 2, totalRevenue = Fin 15000, avgPrice = Fin 7500,
          projectTypeCounts = [(''Development'', Num (Fin 1)), (''Design'', Num (Fin 1))],
          regionCounts = [(''NA'', Num (Fin 1)), (''EU'', Num (Fin 1))]\<rparr>"
proof -
  have abc: "parseFloatStr ''abc'' = NaN"
    by (simp add: parseFloatStr_def isSpace_def isDigit_def)
  have two: "jsDivNat (Fin 15000) (Suc (Suc 0)) = Fin 7500"
    using example_sums(3) by (simp add: numeral_2_eq_2)
  have "twoRows ''graph'' = Some
     [headers,
      [Str ''ORD-001'', Str ''PRJ-001'', Str ''Site'', Str ''Development'', Str ''NA'',
       Num (Fin 15000), Str ''2024-01-15''],
      [Str ''ORD-002'', Str ''PRJ-002'', Str ''Logo'', Str ''Design'', Str ''EU'',
       Str ''abc'', Str ''2024-01-20'']]"
    by (simp add: twoRows_def)
  with assms getStatistics_rows [of h twoRows] show ?thesis
    by (simp add: sumPrices_def parsedPrice_def cellAt_def abc countUp_def orElse_def
        getProperty_def objectPrototype_def prototypeNames_def setMember_def jsPlus_def
        example_sums two)
qed

lemma doGet_shape:
  "mimeType (doGet h ss) = MimeJSON
   \<and> ((\<exists>recs. content (doGet h ss) = Records recs) \<or> (\<exists>msg. content (doGet h ss) = ErrorObject msg))"
  by (auto simp: doGet_def host_ops hostCall_def createJsonResponse_def createErrorResponse_def Let_def
      split: option.splits sum.splits)

lemma doGet_fault:
  assumes "\<exists>c \<in> set [GetActiveSpreadsheet, GetSheetByName, GetDataRange, GetValues]. faults h c \<noteq> None"
  shows "\<exists>msg. content (doGet h ss) = ErrorObject msg"
  using assms
  by (auto simp: doGet_def host_ops hostCall_def createJsonResponse_def createErrorResponse_def Let_def
      split: option.splits sum.splits)

lemma doPost_shape:
  "mimeType (fst (doPost h e ss)) = MimeJSON
   \<and> ((\<exists>m oid pid. content (fst (doPost h e ss)) = Success m oid pid)
       \<or> (\<exists>msg. content (fst (doPost h e ss)) = ErrorObject msg \<and> snd (doPost h e ss) = ss))"
  by (auto simp: doPost_def host_ops hostCall_def createJsonResponse_def createErrorResponse_def Let_def
      bindE_def split: option.splits sum.splits)

lemma doPost_fault:
  assumes "\<exists>c \<in> set [GetActiveSpreadsheet, GetSheetByName, GetLastRow, AppendRow]. faults h c \<noteq> None"
  shows "\<exists>msg. content (fst (doPost h e ss)) = ErrorObject msg \<and> snd (doPost h e ss) = ss"
  using assms
  by (auto simp: doPost_def host_ops hostCall_def createJsonResponse_def createErrorResponse_def Let_def
      bindE_def split: option.splits sum.splits)

lemma doPost_bad_json:
  assumes "getMember e ''postData'' = Inr postData"
      and "getMember postData ''contents'' = Inr contents"
      and "jsonParse h (toStr h contents) = Inl err"
  shows "doPost h e ss = (createErrorResponse (''Failed to add data: '' @ message err), ss)"
  using assms by (simp add: doPost_def)

lemma sample_labels:
  "map (typeLabel h) sampleData = [''Development'', ''Design'', ''Marketing'', ''Development'', ''Design'']"
  "map (regionLabel h) sampleData
     = [''North America'', ''Europe'', ''Asia Pacific'', ''North America'', ''Europe'']"
  by (simp_all add: sampleData_def typeLabel_def regionLabel_def cellAt_def orElse_def)

lemma sample_revenue:
  "sumPrices sampleData = Fin 69500"
  "jsDivNat (Fin 69500) 5 = Fin 13900"
  by code_simp+

section \<open>The claims\<close>

subsection \<open>C7: bootstrap\<close>

text \<open>
  C7.  With a spreadsheet service that does not throw: \<open>setupSheet\<close> on a spreadsheet
  whose sheet \<open>graph\<close> is missing or has no row leaves that sheet with exactly 6 rows,
  the header followed by the five sample rows, and running it again on the result
  changes nothing; on a spreadsheet whose sheet \<open>graph\<close> has at least one row it changes
  nothing.
\<close>

theorem setupSheet_seeds_once:
  assumes "faults h = (\<lambda>c. None)"
  shows "(sheetRows ss ''graph'' = [] \<longrightarrow>
            setupSheet h ss = Inr (ss(''graph'' \<mapsto> headers # sampleData))
            \<and> length (headers # sampleData) = 6
            \<and> setupSheet h (ss(''graph'' \<mapsto> headers # sampleData))
                = Inr (ss(''graph'' \<mapsto> headers # sampleData)))
         \<and> (sheetRows ss ''graph'' \<noteq> [] \<longrightarrow> setupSheet h ss = Inr ss)"
proof -
  have six: "length (headers # sampleData) = 6"
    by (simp add: sampleData_def)
  have again: "setupSheet h (ss(''graph'' \<mapsto> headers # sampleData))
                = Inr (ss(''graph'' \<mapsto> headers # sampleData))"
    by (rule setupSheet_nonempty [OF assms]) (simp add: sheetRows_def)
  show ?thesis
    using setupSheet_empty [OF assms] setupSheet_nonempty [OF assms] six again by blast
qed

text \<open>On the example host: from no sheet at all to the seeded sheet, and no further.\<close>

theorem setupSheet_seeds_once_witness:
  "faults exampleHost = (\<lambda>c. None)
   \<and> sheetRows noSheets ''graph'' = []
   \<and> setupSheet exampleHost noSheets = Inr seeded
   \<and> length (sheetRows seeded ''graph'') = 6
   \<and> sheetRows seeded ''graph'' \<noteq> []
   \<and> setupSheet exampleHost seeded = Inr seeded"
  using setupSheet_seeds_once [of exampleHost noSheets] setupSheet_seeds_once [of exampleHost seeded]
  by (simp add: exampleHost_def noSheets_def seeded_def sheetRows_def)

subsection \<open>C9: listing a sheet without data rows\<close>

text \<open>
  C9.  With a spreadsheet service that does not throw: when the sheet \<open>graph\<close> exists and
  holds only the header row, or no row at all, \<open>doGet\<close> answers with the empty JSON
  array.
\<close>

theorem header_only_lists_nothing:
  assumes "faults h = (\<lambda>c. None)"
      and "ss ''graph'' = Some rs"
      and "length rs \<le> 1"
  shows "doGet h ss = createJsonResponse (Records [])"
  using assms by (simp add: doGet_def host_ops hostCall_def sheetRows_def)

theorem header_only_lists_nothing_witness:
  "faults exampleHost = (\<lambda>c. None)
   \<and> (noSheets(''graph'' \<mapsto> [headers])) ''graph'' = Some [headers]
   \<and> length [headers] \<le> 1
   \<and> doGet exampleHost (noSheets(''graph'' \<mapsto> [headers])) = createJsonResponse (Records [])"
  using header_only_lists_nothing [of exampleHost "noSheets(''graph'' \<mapsto> [headers])" "[headers]"]
  by (simp add: exampleHost_def)

subsection \<open>C10: filtering without the sheet\<close>

text \<open>
  C10.  With a spreadsheet service that does not throw: when the sheet \<open>graph\<close> is
  missing, \<open>getDataByFilter\<close> returns the empty list for every criteria value (also for
  \<open>undefined\<close>); it neither throws nor returns an error object.
\<close>

theorem filter_without_store_is_empty:
  assumes "faults h = (\<lambda>c. None)"
      and "ss ''graph'' = None"
  shows "getDataByFilter h criteria ss = Inr []"
  using assms by (simp add: getDataByFilter_def host_ops hostCall_def)

theorem filter_without_store_is_empty_witness:
  "faults exampleHost = (\<lambda>c. None) \<and> noSheets ''graph'' = None
   \<and> getDataByFilter exampleHost Undefined noSheets = Inr []"
  using filter_without_store_is_empty [of exampleHost noSheets Undefined]
  by (simp add: exampleHost_def noSheets_def)

subsection \<open>C1: creating a record and reading it back\<close>

text \<open>
  C1.  With a spreadsheet service that does not throw: let the sheet \<open>graph\<close> hold a
  header row and N data rows, and let the body of a POST request parse to an object
  whose \<open>projectName\<close>, \<open>projectType\<close> and \<open>region\<close> are non-empty strings and whose
  \<open>price\<close> is a number other than 0 (and not \<open>NaN\<close>, which JSON cannot express).  Then
  after \<open>doPost\<close> the response of \<open>doGet\<close> is an array of N+1 records, and the last of
  them, which the mapping of \<open>doGet\<close> makes from the appended row, has exactly the
  \<open>projectName\<close>, \<open>projectType\<close>, \<open>region\<close> and \<open>price\<close> of the request, and the ids
  \<open>ORD-\<close> and \<open>PRJ-\<close> followed by N+1 in decimal, filled with zeros from the left
  to three characters (\<open>natToString_decimal\<close> says that \<open>natToString\<close> is the decimal
  numeral).
\<close>

theorem create_then_read_roundtrip:
  assumes "faults h = (\<lambda>c. None)"
      and "getMember e ''postData'' = Inr postData"
      and "getMember postData ''contents'' = Inr contents"
      and "jsonParse h (toStr h contents) = Inr (Obj flds)"
      and "map_of flds ''projectName'' = Some (Str name)" and "name \<noteq> []"
      and "map_of flds ''projectType'' = Some (Str type)" and "type \<noteq> []"
      and "map_of flds ''region'' = Some (Str reg)" and "reg \<noteq> []"
      and "map_of flds ''price'' = Some (Num p)" and "p \<noteq> Fin 0" and "p \<noteq> NaN"
      and "ss ''graph'' = Some (hdr # rows)"
  shows "fst (doPost h e ss)
           = createJsonResponse (Success ''Data added successfully''
               (''ORD-'' @ padStart 3 CHR ''0'' (natToString (length rows + 1)))
               (''PRJ-'' @ padStart 3 CHR ''0'' (natToString (length rows + 1))))
         \<and> (\<exists>recs. content (doGet h (snd (doPost h e ss))) = Records recs
           \<and> length recs = length rows + 1
           \<and> orderId (recs ! length rows)
               = Str (''ORD-'' @ padStart 3 CHR ''0'' (natToString (length rows + 1)))
           \<and> projectId (recs ! length rows)
               = Str (''PRJ-'' @ padStart 3 CHR ''0'' (natToString (length rows + 1)))
           \<and> projectName (recs ! length rows) = Str name
           \<and> projectType (recs ! length rows) = Str type
           \<and> region (recs ! length rows) = Str reg
           \<and> price (recs ! length rows) = Num p)"
proof -
  define new where "new =
          [Str (''ORD-'' @ padStart 3 CHR ''0'' (natToString (length rows + 1))),
           Str (''PRJ-'' @ padStart 3 CHR ''0'' (natToString (length rows + 1))),
           Str name, Str type, Str reg, Num p, Str (today h)]"
  define recs where
    "recs = map (\<lambda>(index, row). rowToRecord h row index) (enumerate 0 (rows @ [new]))"
  have members: "getProperty flds ''projectName'' = Str name"
    "getProperty flds ''projectType'' = Str type"
    "getProperty flds ''region'' = Str reg"
    "getProperty flds ''price'' = Num p"
    using assms(5,7,9,11) by (simp_all add: present_member)
  have post: "snd (doPost h e ss) = ss(''graph'' \<mapsto> hdr # (rows @ [new]))"
    using doPost_appends [OF assms(1-4), of ss "hdr # rows"] assms(6,8,10,12,13,14)
    by (simp add: members new_def)
  have answer: "fst (doPost h e ss)
           = createJsonResponse (Success ''Data added successfully''
               (''ORD-'' @ padStart 3 CHR ''0'' (natToString (length rows + 1)))
               (''PRJ-'' @ padStart 3 CHR ''0'' (natToString (length rows + 1))))"
    using doPost_appends [OF assms(1-4), of ss "hdr # rows"] assms(6,8,10,12,13,14)
    by (simp add: members)
  have "doGet h (snd (doPost h e ss)) = createJsonResponse (Records recs)"
    unfolding post recs_def by (rule doGet_rows [OF assms(1)]) simp
  then have get: "content (doGet h (snd (doPost h e ss))) = Records recs"
    by (simp add: createJsonResponse_def)
  have len: "length recs = length rows + 1"
    by (simp add: recs_def)
  have rec: "recs ! length rows = rowToRecord h new (length rows)"
    unfolding recs_def by (rule last_record)
  have ids: "orderId (recs ! length rows)
               = Str (''ORD-'' @ padStart 3 CHR ''0'' (natToString (length rows + 1)))"
    "projectId (recs ! length rows)
               = Str (''PRJ-'' @ padStart 3 CHR ''0'' (natToString (length rows + 1)))"
    unfolding rec by (simp_all add: new_def rowToRecord_def cellAt_def orElse_def)
  have texts: "projectName (recs ! length rows) = Str name"
    "projectType (recs ! length rows) = Str type"
    "region (recs ! length rows) = Str reg"
    unfolding rec using assms(6,8,10)
    by (simp_all add: new_def rowToRecord_def cellAt_def orElse_def)
  have num: "price (recs ! length rows) = Num p"
    unfolding rec using assms(12,13)
    by (simp add: new_def rowToRecord_def cellAt_def orZero_def)
  from answer get len ids texts num show ?thesis
    by blast
qed

text \<open>On the example host: the seeded sheet has five data rows, the new record is the
  sixth.\<close>

theorem create_then_read_roundtrip_witness:
  "faults exampleHost = (\<lambda>c. None)
   \<and> seeded ''graph'' = Some (headers # sampleData)
   \<and> (\<exists>recs. content (doGet exampleHost (snd (doPost exampleHost (postEvent exampleBody) seeded)))
                 = Records recs
           \<and> length recs = 6
           \<and> orderId (recs ! 5) = Str ''ORD-006''
           \<and> projectId (recs ! 5) = Str ''PRJ-006''
           \<and> projectName (recs ! 5) = Str ''Logo''
           \<and> projectType (recs ! 5) = Str ''Design''
           \<and> region (recs ! 5) = Str ''EU''
           \<and> price (recs ! 5) = Num (Fin 1200))"
proof -
  let ?flds = "[(''projectName'', Str ''Logo''), (''projectType'', Str ''Design''),
                (''region'', Str ''EU''), (''price'', Num (Fin 1200))]"
  have h0: "faults exampleHost = (\<lambda>c. None)"
    by (simp add: exampleHost_def)
  have h1: "seeded ''graph'' = Some (headers # sampleData)"
    by (simp add: seeded_def)
  have five: "length sampleData = 5"
    by (simp add: sampleData_def)
  have six: "padStart 3 CHR ''0'' (natToString 6) = ''006''"
    by code_simp
  from create_then_read_roundtrip [OF h0 example_post example_fields, of "''Logo''" "''Design''"
      "''EU''" "Fin 1200" seeded headers sampleData] h1
  have "\<exists>recs. content (doGet exampleHost (snd (doPost exampleHost (postEvent exampleBody) seeded)))
                 = Records recs
           \<and> length recs = length sampleData + 1
           \<and> orderId (recs ! length sampleData)
               = Str (''ORD-'' @ padStart 3 CHR ''0'' (natToString (length sampleData + 1)))
           \<and> projectId (recs ! length sampleData)
               = Str (''PRJ-'' @ padStart 3 CHR ''0'' (natToString (length sampleData + 1)))
           \<and> projectName (recs ! length sampleData) = Str ''Logo''
           \<and> projectType (recs ! length sampleData) = Str ''Design''
           \<and> region (recs ! length sampleData) = Str ''EU''
           \<and> price (recs ! length sampleData) = Num (Fin 1200)"
    by simp
  then have "\<exists>recs. content (doGet exampleHost (snd (doPost exampleHost (postEvent exampleBody) seeded)))
                 = Records recs
           \<and> length recs = 6
           \<and> orderId (recs ! 5) = Str ''ORD-006''
           \<and> projectId (recs ! 5) = Str ''PRJ-006''
           \<and> projectName (recs ! 5) = Str ''Logo''
           \<and> projectType (recs ! 5) = Str ''Design''
           \<and> region (recs ! 5) = Str ''EU''
           \<and> price (recs ! 5) = Num (Fin 1200)"
    unfolding five using six by simp
  with h0 h1 show ?thesis by blast
qed

subsection \<open>C2: the fields of a record\<close>

text \<open>
  C2, as the claim states it, fails: a price cell holding the text \<open>Infinity\<close> gives a
  record whose price is infinite, since \<open>parseFloat\<close> reads \<open>Infinity\<close> as a number and
  \<open>||\<close> keeps every number but 0 and \<open>NaN\<close>.
\<close>

theorem price_can_be_infinite:
  "price (rowToRecord exampleHost infinitePriceRow 0) = Num PosInf"
  by (simp add: infinitePriceRow_def rowToRecord_def cellAt_def parseFloat_Infinity orZero_def)

text \<open>
  C2, amended.  For every row, whatever its cells, the record made by the mapping of
  \<open>doGet\<close> has all seven fields (none is \<open>undefined\<close>), and its price is a number that
  is never \<open>NaN\<close>: a finite number, or plus or minus infinity when the price cell
  parses to that.
\<close>

theorem record_fields_present:
  "orderId (rowToRecord h row i) \<noteq> Undefined
   \<and> projectId (rowToRecord h row i) \<noteq> Undefined
   \<and> projectName (rowToRecord h row i) \<noteq> Undefined
   \<and> projectType (rowToRecord h row i) \<noteq> Undefined
   \<and> region (rowToRecord h row i) \<noteq> Undefined
   \<and> price (rowToRecord h row i) \<noteq> Undefined
   \<and> date (rowToRecord h row i) \<noteq> Undefined
   \<and> (\<exists>x. price (rowToRecord h row i) = Num x \<and> x \<noteq> NaN)
   \<and> ((\<exists>q. price (rowToRecord h row i) = Num (Fin q))
       \<or> parseFloat (cellAt row 5) = PosInf \<and> price (rowToRecord h row i) = Num PosInf
       \<or> parseFloat (cellAt row 5) = NegInf \<and> price (rowToRecord h row i) = Num NegInf)"
proof -
  have "(\<exists>q. orZero x = Fin q) \<or> x = PosInf \<and> orZero x = PosInf
        \<or> x = NegInf \<and> orZero x = NegInf" for x
    by (cases x) (simp_all add: orZero_def)
  then show ?thesis
    by (simp add: rowToRecord_def orElse_defined orZero_not_NaN)
qed

subsection \<open>C3: a request with a missing field\<close>

text \<open>
  C3, as the claim states it, fails: in the body \<open>null\<close> the price and every required
  field are absent, and the answer is not \<open>{error: "Missing required fields"}\<close>.
  Reading the first field of \<open>null\<close> throws, and the \<open>catch\<close> clause answers with the
  message of that error.  No row is appended there either.
\<close>

theorem null_body_gets_another_error:
  "jsonParse exampleHost (toStr exampleHost (Str ''null'')) = Inr Null
   \<and> fieldOf Null ''price'' = None
   \<and> doPost exampleHost (postEvent ''null'') seeded
       = (createErrorResponse
            ''Failed to add data: Cannot read properties of null (reading projectName)'', seeded)
   \<and> content (fst (doPost exampleHost (postEvent ''null'') seeded))
       \<noteq> ErrorObject ''Missing required fields''"
proof -
  have parsed: "jsonParse exampleHost (toStr exampleHost (Str ''null'')) = Inr Null"
    by (simp add: exampleHost_def exampleJsonParse_def exampleBody_def exampleBodyNoPrice_def)
  have absent: "fieldOf Null ''price'' = None"
    by (simp add: fieldOf_def)
  have answer: "doPost exampleHost (postEvent ''null'') seeded
       = (createErrorResponse
            ''Failed to add data: Cannot read properties of null (reading projectName)'', seeded)"
    using example_post parsed by (rule null_body_is_an_error)
  then have other: "content (fst (doPost exampleHost (postEvent ''null'') seeded))
       \<noteq> ErrorObject ''Missing required fields''"
    by (simp add: createErrorResponse_def)
  from parsed absent answer other show ?thesis
    by blast
qed

text \<open>
  C3, amended.  When the body of a POST request parses to a value other than \<open>null\<close> in
  which \<open>price\<close> is absent or 0, or one of \<open>projectName\<close>, \<open>projectType\<close>, \<open>region\<close> is
  absent or the empty string, \<open>doPost\<close> answers \<open>{error: "Missing required fields"}\<close>
  and leaves the spreadsheet as it was; no call of the spreadsheet service is made
  before that answer, so it does not matter whether the service would throw.
\<close>

theorem create_rejects_missing_fields:
  assumes "getMember e ''postData'' = Inr postData"
      and "getMember postData ''contents'' = Inr contents"
      and "jsonParse h (toStr h contents) = Inr body"
      and "body \<noteq> Null" and "body \<noteq> Undefined"
      and "fieldOf body ''price'' = None \<or> fieldOf body ''price'' = Some (Num (Fin 0))
           \<or> (\<exists>k \<in> {''projectName'', ''projectType'', ''region''}.
                 fieldOf body k = None \<or> fieldOf body k = Some (Str []))"
  shows "doPost h e ss = (createErrorResponse ''Missing required fields'', ss)"
proof -
  note member = member_of_body [OF assms(4,5)]
  have "jsNot (case fieldOf body ''projectName'' of None \<Rightarrow> Undefined | Some v \<Rightarrow> v)
        \<or> jsNot (case fieldOf body ''projectType'' of None \<Rightarrow> Undefined | Some v \<Rightarrow> v)
        \<or> jsNot (case fieldOf body ''region'' of None \<Rightarrow> Undefined | Some v \<Rightarrow> v)
        \<or> jsNot (case fieldOf body ''price'' of None \<Rightarrow> Undefined | Some v \<Rightarrow> v)"
    using assms(6) by (auto simp: jsNot_def)
  then show ?thesis
    using assms(1-3)
    by (simp add: doPost_def member field_names_not_inherited)
qed

text \<open>On the example host: a body without a price, sent to the seeded sheet.\<close>

theorem create_rejects_missing_fields_witness:
  "getMember (postEvent exampleBodyNoPrice) ''postData'' = Inr (Obj [(''contents'', Str exampleBodyNoPrice)])
   \<and> getMember (Obj [(''contents'', Str exampleBodyNoPrice)]) ''contents'' = Inr (Str exampleBodyNoPrice)
   \<and> jsonParse exampleHost (toStr exampleHost (Str exampleBodyNoPrice))
       = Inr (Obj [(''projectName'', Str ''Logo''), (''projectType'', Str ''Design''),
                  (''region'', Str ''EU'')])
   \<and> fieldOf (Obj [(''projectName'', Str ''Logo''), (''projectType'', Str ''Design''),
                   (''region'', Str ''EU'')]) ''price'' = None
   \<and> doPost exampleHost (postEvent exampleBodyNoPrice) seeded
       = (createErrorResponse ''Missing required fields'', seeded)"
proof -
  let ?body = "Obj [(''projectName'', Str ''Logo''), (''projectType'', Str ''Design''),
                    (''region'', Str ''EU'')]"
  have h1: "getMember (postEvent exampleBodyNoPrice) ''postData''
              = Inr (Obj [(''contents'', Str exampleBodyNoPrice)])"
    by (rule example_post)
  have h2: "getMember (Obj [(''contents'', Str exampleBodyNoPrice)]) ''contents''
              = Inr (Str exampleBodyNoPrice)"
    by (rule example_post)
  have h3: "jsonParse exampleHost (toStr exampleHost (Str exampleBodyNoPrice)) = Inr ?body"
    by (simp add: exampleHost_def exampleJsonParse_def exampleBody_def exampleBodyNoPrice_def)
  have h4: "fieldOf ?body ''price'' = None"
    by (simp add: fieldOf_def)
  have h5: "?body \<noteq> Null" "?body \<noteq> Undefined"
    by simp_all
  from h4 have h4': "fieldOf ?body ''price'' = None \<or> fieldOf ?body ''price'' = Some (Num (Fin 0))
           \<or> (\<exists>k \<in> {''projectName'', ''projectType'', ''region''}.
                 fieldOf ?body k = None \<or> fieldOf ?body k = Some (Str []))"
    by (rule disjI1)
  from h1 h2 h3 h4 create_rejects_missing_fields [OF h1 h2 h3 h5 h4', of seeded]
  show ?thesis by blast
qed

subsection \<open>C6: defaults\<close>

text \<open>
  C6.  For every row: an empty or missing project name, project type or region cell
  gives \<open>Unnamed Project\<close>, \<open>Other\<close>, \<open>Unknown\<close>; a price cell that \<open>parseFloat\<close>
  cannot read (its result is \<open>NaN\<close>, as for \<open>abc\<close>) gives the price 0; and the mapping
  never fails: with a spreadsheet service that does not throw, \<open>doGet\<close> on a sheet with
  a header row answers with one record for each data row, whatever the cells hold.
\<close>

theorem rowToRecord_defaults:
  "(cellAt row 2 = Str [] \<or> cellAt row 2 = Undefined \<longrightarrow>
      projectName (rowToRecord h row i) = Str ''Unnamed Project'')
   \<and> (cellAt row 3 = Str [] \<or> cellAt row 3 = Undefined \<longrightarrow>
      projectType (rowToRecord h row i) = Str ''Other'')
   \<and> (cellAt row 4 = Str [] \<or> cellAt row 4 = Undefined \<longrightarrow>
      region (rowToRecord h row i) = Str ''Unknown'')
   \<and> (parseFloat (cellAt row 5) = NaN \<longrightarrow> price (rowToRecord h row i) = Num (Fin 0))
   \<and> parseFloat (Str ''abc'') = NaN
   \<and> (faults h = (\<lambda>c. None) \<and> ss ''graph'' = Some (hdr # rows) \<longrightarrow>
        (\<exists>recs. content (doGet h ss) = Records recs \<and> length recs = length rows))"
proof -
  have "faults h = (\<lambda>c. None) \<and> ss ''graph'' = Some (hdr # rows) \<longrightarrow>
        (\<exists>recs. content (doGet h ss) = Records recs \<and> length recs = length rows)"
    by (auto simp: doGet_rows createJsonResponse_def)
  then show ?thesis
    by (auto simp: rowToRecord_def orElse_def orZero_def parseFloat_abc)
qed

theorem rowToRecord_defaults_witness:
  "cellAt [Str ''ORD-009'', Str ''PRJ-009'', Str [], Str [], Str [], Str ''abc''] 2 = Str []
   \<and> cellAt [Str ''ORD-009'', Str ''PRJ-009'', Str [], Str [], Str [], Str ''abc''] 3 = Str []
   \<and> cellAt [Str ''ORD-009'', Str ''PRJ-009'', Str [], Str [], Str [], Str ''abc''] 4 = Str []
   \<and> parseFloat (cellAt [Str ''ORD-009'', Str ''PRJ-009'', Str [], Str [], Str [], Str ''abc''] 5) = NaN
   \<and> projectName (rowToRecord exampleHost
          [Str ''ORD-009'', Str ''PRJ-009'', Str [], Str [], Str [], Str ''abc''] 8)
        = Str ''Unnamed Project''
   \<and> projectType (rowToRecord exampleHost
          [Str ''ORD-009'', Str ''PRJ-009'', Str [], Str [], Str [], Str ''abc''] 8)
        = Str ''Other''
   \<and> region (rowToRecord exampleHost
          [Str ''ORD-009'', Str ''PRJ-009'', Str [], Str [], Str [], Str ''abc''] 8)
        = Str ''Unknown''
   \<and> price (rowToRecord exampleHost
          [Str ''ORD-009'', Str ''PRJ-009'', Str [], Str [], Str [], Str ''abc''] 8)
        = Num (Fin 0)
   \<and> faults exampleHost = (\<lambda>c. None)
   \<and> seeded ''graph'' = Some (headers # sampleData)
   \<and> (\<exists>recs. content (doGet exampleHost seeded) = Records recs \<and> length recs = 5)"
proof -
  let ?row = "[Str ''ORD-009'', Str ''PRJ-009'', Str [], Str [], Str [], Str ''abc'']"
  have cells: "cellAt ?row 2 = Str []" "cellAt ?row 3 = Str []" "cellAt ?row 4 = Str []"
    by (simp_all add: cellAt_def)
  have nan: "parseFloat (cellAt ?row 5) = NaN"
    by (simp add: cellAt_def parseFloat_abc)
  have h0: "faults exampleHost = (\<lambda>c. None)"
    by (simp add: exampleHost_def)
  have h1: "seeded ''graph'' = Some (headers # sampleData)"
    by (simp add: seeded_def)
  have five: "length sampleData = 5"
    by (simp add: sampleData_def)
  note inst = rowToRecord_defaults [of ?row exampleHost 8 seeded headers sampleData]
  from inst h0 h1 have "\<exists>recs. content (doGet exampleHost seeded) = Records recs \<and> length recs = 5"
    unfolding five by blast
  with inst cells nan h0 h1 show ?thesis
    by blast
qed

subsection \<open>C4: statistics\<close>

text \<open>
  C4, as the claim states it, fails: only a blank project type is to be counted under
  \<open>Other\<close>, every other project type under itself.  A row whose project type cell holds
  the number 0 is counted under \<open>Other\<close>, since \<open>||\<close> replaces every falsy value, and
  nothing is counted under 0.
\<close>

theorem falsy_type_counts_as_other:
  "getStatistics exampleHost zeroTypeSheet =
     Inr \<lparr>totalOrders = 1, totalRevenue = Fin 15000, avgPrice = Fin 15000,
          projectTypeCounts = [(''Other'', Num (Fin 1))],
          regionCounts = [(''NA'', Num (Fin 1))]\<rparr>"
  by code_simp

text \<open>
  Apart from that, a key that names a property which every object inherits is not
  counted at all: the first row finds the inherited function where it expects a number
  and appends 1 to its text.  The amended claim says nothing about such keys.
\<close>

lemma inherited_name_is_miscounted:
  "getStatistics exampleHost constructorSheet =
     Inr \<lparr>totalOrders = 1, totalRevenue = Fin 15000, avgPrice = Fin 15000,
          projectTypeCounts = [(''constructor'', Str ''function Object() { [native code] }1'')],
          regionCounts = [(''NA'', Num (Fin 1))]\<rparr>"
  by code_simp

text \<open>
  C4, amended.  With a spreadsheet service that does not throw, on a sheet with a header
  row and data rows R: \<open>totalOrders\<close> is the number of rows of R; \<open>totalRevenue\<close> is the
  sum over R, in the order of the sheet and in double arithmetic, of the parsed price
  cell, a price that does not parse counting 0; \<open>avgPrice\<close> is
  \<open>totalRevenue / totalOrders\<close> when there is a row and 0 otherwise;
  \<open>projectTypeCounts\<close> and \<open>regionCounts\<close> hold, under every key that is not the name of
  a property inherited from \<open>Object.prototype\<close>, the number of rows whose project type
  (region) cell, replaced by \<open>Other\<close> (\<open>Unknown\<close>) when it is missing, empty, 0 or
  \<open>false\<close> and converted to a string, is that key, and nothing under a key no row has
  (R has fewer than \<open>2^32\<close> rows, as every array has).  When the sheet is missing the
  result has the same shape with zeros and empty objects.  On the two example rows
  with the prices 15000 and \<open>abc\<close> the result is \<open>totalOrders = 2\<close>,
  \<open>totalRevenue = 15000\<close>, \<open>avgPrice = 7500\<close>, \<open>{Development: 1, Design: 1}\<close> and
  \<open>{NA: 1, EU: 1}\<close>.
\<close>

theorem statistics_of_rows:
  assumes "faults h = (\<lambda>c. None)"
  shows "(ss ''graph'' = Some (hdr # rows) \<longrightarrow>
           (\<exists>st. getStatistics h ss = Inr st
              \<and> totalOrders st = length rows
              \<and> totalRevenue st = sumPrices rows
              \<and> avgPrice st = (if length rows > 0 then jsDivNat (totalRevenue st) (totalOrders st)
                               else Fin 0)
              \<and> (length rows < 2 ^ 32 \<longrightarrow>
                  (\<forall>k. k \<notin> set prototypeNames \<longrightarrow>
                    map_of (projectTypeCounts st) k = counted (occurrences k (map (typeLabel h) rows))
                    \<and> map_of (regionCounts st) k = counted (occurrences k (map (regionLabel h) rows))))))
       \<and> (ss ''graph'' = None \<longrightarrow>
            getStatistics h ss =
              Inr \<lparr>totalOrders = 0, totalRevenue = Fin 0, avgPrice = Fin 0,
                   projectTypeCounts = [], regionCounts = []\<rparr>)
       \<and> getStatistics h twoRows =
            Inr \<lparr>totalOrders = 2, totalRevenue = Fin 15000, avgPrice = Fin 7500,
                 projectTypeCounts = [(''Development'', Num (Fin 1)), (''Design'', Num (Fin 1))],
                 regionCounts = [(''NA'', Num (Fin 1)), (''EU'', Num (Fin 1))]\<rparr>"
proof -
  have types: "map (\<lambda>row. toStr h (orElse (cellAt row 3) (Str ''Other''))) rows = map (typeLabel h) rows"
    and regions: "map (\<lambda>row. toStr h (orElse (cellAt row 4) (Str ''Unknown''))) rows = map (regionLabel h) rows"
    by (simp_all add: typeLabel_def regionLabel_def)
  have counts: "map_of (foldl (\<lambda>counts row.
                     countUp h counts (orElse (cellAt row 3) (Str ''Other''))) [] rows) k
                  = counted (occurrences k (map (typeLabel h) rows))
                \<and> map_of (foldl (\<lambda>counts row.
                     countUp h counts (orElse (cellAt row 4) (Str ''Unknown''))) [] rows) k
                  = counted (occurrences k (map (regionLabel h) rows))"
    if "length rows < 2 ^ 32" and "k \<notin> set prototypeNames" for k
  proof -
    have "(2 :: nat) ^ 32 < 2 ^ 53" by simp
    with that(1) have "length rows < 2 ^ 53" by (rule less_trans)
    from counts_from_empty [OF that(2) this, of h] show ?thesis
      by (simp only: types regions)
  qed
  have present: "ss ''graph'' = Some (hdr # rows) \<longrightarrow>
           (\<exists>st. getStatistics h ss = Inr st
              \<and> totalOrders st = length rows
              \<and> totalRevenue st = sumPrices rows
              \<and> avgPrice st = (if length rows > 0 then jsDivNat (totalRevenue st) (totalOrders st)
                               else Fin 0)
              \<and> (length rows < 2 ^ 32 \<longrightarrow>
                  (\<forall>k. k \<notin> set prototypeNames \<longrightarrow>
                    map_of (projectTypeCounts st) k = counted (occurrences k (map (typeLabel h) rows))
                    \<and> map_of (regionCounts st) k = counted (occurrences k (map (regionLabel h) rows)))))"
  proof
    assume "ss ''graph'' = Some (hdr # rows)"
    with assms getStatistics_rows [of h ss hdr rows]
    have "getStatistics h ss =
     Inr \<lparr>totalOrders = length rows,
          totalRevenue = sumPrices rows,
          avgPrice = (if length rows > 0 then jsDivNat (sumPrices rows) (length rows) else Fin 0),
          projectTypeCounts = foldl (\<lambda>counts row.
                                countUp h counts (orElse (cellAt row 3) (Str ''Other''))) [] rows,
          regionCounts = foldl (\<lambda>counts row.
                               countUp h counts (orElse (cellAt row 4) (Str ''Unknown''))) [] rows\<rparr>"
      by simp
    with counts show "\<exists>st. getStatistics h ss = Inr st
              \<and> totalOrders st = length rows
              \<and> totalRevenue st = sumPrices rows
              \<and> avgPrice st = (if length rows > 0 then jsDivNat (totalRevenue st) (totalOrders st)
                               else Fin 0)
              \<and> (length rows < 2 ^ 32 \<longrightarrow>
                  (\<forall>k. k \<notin> set prototypeNames \<longrightarrow>
                    map_of (projectTypeCounts st) k = counted (occurrences k (map (typeLabel h) rows))
                    \<and> map_of (regionCounts st) k = counted (occurrences k (map (regionLabel h) rows))))"
      by simp
  qed
  from present getStatistics_absent [OF assms] getStatistics_twoRows [OF assms]
  show ?thesis by blast
qed

text \<open>On the example host and the seeded sheet, and on a spreadsheet without sheets.\<close>

theorem statistics_of_rows_witness:
  "faults exampleHost = (\<lambda>c. None)
   \<and> seeded ''graph'' = Some (headers # sampleData)
   \<and> (\<exists>st. getStatistics exampleHost seeded = Inr st
          \<and> totalOrders st = 5
          \<and> totalRevenue st = Fin 69500
          \<and> avgPrice st = Fin 13900
          \<and> length sampleData < 2 ^ 32
          \<and> ''Design'' \<notin> set prototypeNames
          \<and> map_of (projectTypeCounts st) ''Design'' = Some (Num (Fin 2))
          \<and> ''Asia Pacific'' \<notin> set prototypeNames
          \<and> map_of (regionCounts st) ''Asia Pacific'' = Some (Num (Fin 1)))
   \<and> noSheets ''graph'' = None
   \<and> getStatistics exampleHost noSheets =
        Inr \<lparr>totalOrders = 0, totalRevenue = Fin 0, avgPrice = Fin 0,
             projectTypeCounts = [], regionCounts = []\<rparr>"
proof -
  have h0: "faults exampleHost = (\<lambda>c. None)"
    by (simp add: exampleHost_def)
  have h1: "seeded ''graph'' = Some (headers # sampleData)"
    by (simp add: seeded_def)
  have h2: "noSheets ''graph'' = None"
    by (simp add: noSheets_def)
  have five: "length sampleData = 5"
    by (simp add: sampleData_def)
  have few: "length sampleData < 2 ^ 32"
    by (simp add: five)
  have names: "''Design'' \<notin> set prototypeNames" "''Asia Pacific'' \<notin> set prototypeNames"
    by (simp_all add: prototypeNames_def)
  from statistics_of_rows [OF h0, of seeded headers sampleData] h1
  obtain st where st: "getStatistics exampleHost seeded = Inr st"
      "totalOrders st = length sampleData"
      "totalRevenue st = sumPrices sampleData"
      "avgPrice st = (if length sampleData > 0 then jsDivNat (totalRevenue st) (totalOrders st) else Fin 0)"
      "length sampleData < 2 ^ 32 \<longrightarrow> (\<forall>k. k \<notin> set prototypeNames \<longrightarrow>
          map_of (projectTypeCounts st) k = counted (occurrences k (map (typeLabel exampleHost) sampleData))
          \<and> map_of (regionCounts st) k = counted (occurrences k (map (regionLabel exampleHost) sampleData)))"
    by blast
  from st(5) few names have counts:
    "map_of (projectTypeCounts st) ''Design'' = Some (Num (Fin 2))"
    "map_of (regionCounts st) ''Asia Pacific'' = Some (Num (Fin 1))"
    by (simp_all add: sample_labels occurrences_def counted_def)
  from st(2-4) have totals: "totalOrders st = 5" "totalRevenue st = Fin 69500" "avgPrice st = Fin 13900"
    by (simp_all add: five sample_revenue)
  from statistics_of_rows [OF h0, of noSheets] h2
  have absent: "getStatistics exampleHost noSheets =
        Inr \<lparr>totalOrders = 0, totalRevenue = Fin 0, avgPrice = Fin 0,
             projectTypeCounts = [], regionCounts = []\<rparr>"
    by blast
  from h0 h1 h2 st(1) totals few names counts absent show ?thesis
    by blast
qed

text \<open>
  The sums are sums of doubles: with the prices 0.1 and 0.2 the revenue is the double
  that prints as 0.30000000000000004 (the value
  \<open>5404319552844596 / 2^54\<close>), and the average the double that prints as
  0.15000000000000002.
\<close>

lemma revenue_is_a_sum_of_doubles:
  "getStatistics exampleHost tenthsSheet =
     Inr \<lparr>totalOrders = 2,
          totalRevenue = Fin (5404319552844596 / 2 ^ 54),
          avgPrice = Fin (5404319552844596 / 2 ^ 55),
          projectTypeCounts = [(''Development'', Num (Fin 1)), (''Design'', Num (Fin 1))],
          regionCounts = [(''NA'', Num (Fin 1)), (''EU'', Num (Fin 1))]\<rparr>"
  by code_simp

subsection \<open>C5: filtering\<close>

text \<open>
  C5.  With a start and an end date in the criteria, \<open>getDataByFilter\<close> is to return
  exactly the rows whose date lies in the inclusive range.  The script does not: on a
  sheet whose only data row has an empty date cell, with the range 2024-01-01 to
  2024-12-31, it returns that row, whose date is no date and so not in the range.  The
  date of the row is invalid, both comparisons with it are false, and the row falls
  through the block that filters by date range.
\<close>

theorem undated_row_passes_date_filter:
  "getDataByFilter exampleHost year2024 undatedSheet = Inr [undatedRow]
   \<and> \<not> withinRange (newDate exampleHost (cellAt undatedRow 6))
          (newDate exampleHost (Str ''2024-01-01'')) (newDate exampleHost (Str ''2024-12-31''))"
  by code_simp

subsection \<open>C8: no exception leaves a handler\<close>

text \<open>
  C8.  For every host, whichever of its calls throw, every spreadsheet and every
  request: \<open>doGet\<close> and \<open>doPost\<close> return a response of MIME type JSON; the response of
  \<open>doGet\<close> is the array of records or \<open>{error: message}\<close>, that of \<open>doPost\<close> is the
  success object or \<open>{error: message}\<close>, and with an error \<open>doPost\<close> has left the
  spreadsheet as it was; when a call of the spreadsheet service that the handler makes
  throws, the response is \<open>{error: message}\<close>; when the body of the request is not valid
  JSON, the response is \<open>{error: "Failed to add data: " + message}\<close> with the message of
  the parser.  (The handlers are total functions to responses: the \<open>catch\<close> clause
  encloses every call that can throw, and building the error response does not throw.)
\<close>

theorem handlers_always_answer:
  "mimeType (doGet h ss) = MimeJSON
   \<and> ((\<exists>recs. content (doGet h ss) = Records recs) \<or> (\<exists>msg. content (doGet h ss) = ErrorObject msg))
   \<and> ((\<exists>c \<in> set [GetActiveSpreadsheet, GetSheetByName, GetDataRange, GetValues]. faults h c \<noteq> None)
        \<longrightarrow> (\<exists>msg. content (doGet h ss) = ErrorObject msg))
   \<and> mimeType (fst (doPost h e ss)) = MimeJSON
   \<and> ((\<exists>m oid pid. content (fst (doPost h e ss)) = Success m oid pid)
       \<or> (\<exists>msg. content (fst (doPost h e ss)) = ErrorObject msg \<and> snd (doPost h e ss) = ss))
   \<and> ((\<exists>c \<in> set [GetActiveSpreadsheet, GetSheetByName, GetLastRow, AppendRow]. faults h c \<noteq> None)
        \<longrightarrow> (\<exists>msg. content (fst (doPost h e ss)) = ErrorObject msg \<and> snd (doPost h e ss) = ss))
   \<and> (getMember e ''postData'' = Inr postData \<and> getMember postData ''contents'' = Inr contents
        \<and> jsonParse h (toStr h contents) = Inl err
        \<longrightarrow> doPost h e ss = (createErrorResponse (''Failed to add data: '' @ message err), ss))"
  using doGet_shape [of h ss] doGet_fault [of h ss] doPost_shape [of h e ss] doPost_fault [of h e ss]
    doPost_bad_json [of e postData contents h err ss]
  by blast

text \<open>On a host whose \<open>getValues\<close> and \<open>appendRow\<close> throw, and on a body that is not
  JSON.\<close>

theorem handlers_always_answer_witness:
  "faults faultyHost GetValues \<noteq> None
   \<and> doGet faultyHost seeded = createErrorResponse ''Failed to fetch data: Service error''
   \<and> faults faultyHost AppendRow \<noteq> None
   \<and> fst (doPost faultyHost (postEvent exampleBody) seeded)
       = createErrorResponse ''Failed to add data: Service error''
   \<and> snd (doPost faultyHost (postEvent exampleBody) seeded) = seeded
   \<and> jsonParse exampleHost (toStr exampleHost (Str ''{oops'')) = Inl (Exn ''Unexpected token in JSON'')
   \<and> doPost exampleHost (postEvent ''{oops'') seeded
       = (createErrorResponse ''Failed to add data: Unexpected token in JSON'', seeded)"
proof -
  have f1: "faults faultyHost GetValues \<noteq> None" and f2: "faults faultyHost AppendRow \<noteq> None"
    by (simp_all add: faultyHost_def)
  have get: "doGet faultyHost seeded = createErrorResponse ''Failed to fetch data: Service error''"
    by code_simp
  have post: "fst (doPost faultyHost (postEvent exampleBody) seeded)
       = createErrorResponse ''Failed to add data: Service error''"
    by code_simp
  from handlers_always_answer [of faultyHost seeded "postEvent exampleBody"] f2
  have same: "snd (doPost faultyHost (postEvent exampleBody) seeded) = seeded"
    by auto
  have bad: "jsonParse exampleHost (toStr exampleHost (Str ''{oops'')) = Inl (Exn ''Unexpected token in JSON'')"
    by (simp add: exampleHost_def exampleJsonParse_def exampleBody_def exampleBodyNoPrice_def)
  from handlers_always_answer [of exampleHost seeded "postEvent ''{oops''" "Obj [(''contents'', Str ''{oops'')]"
      "Str ''{oops''" "Exn ''Unexpected token in JSON''"] example_post bad
  have "doPost exampleHost (postEvent ''{oops'') seeded
       = (createErrorResponse ''Failed to add data: Unexpected token in JSON'', seeded)"
    by simp
  with f1 f2 get post same bad show ?thesis by blast
qed

end
